theory Spec2Isabelle
  imports Complex_Main
begin

section \<open>Speech playback scheduling (the onmessage callback of LiveSession)\<close>

text \<open>
  The callbacks passed to \<^verbatim>\<open>ai.live.connect\<close> share four pieces of mutable state:
  \<^verbatim>\<open>nextStartTimeRef\<close> (the playback cursor), \<^verbatim>\<open>sourcesRef\<close> (the set of scheduled
  buffer sources), \<^verbatim>\<open>analyserRef\<close> and the React state \<^verbatim>\<open>modelState\<close>. Times are
  JavaScript numbers; they are modelled as reals, so rounding of the addition
  \<^verbatim>\<open>nextStartTimeRef.current += audioBuffer.duration\<close> is not represented.

  The output \<^verbatim>\<open>AudioContext\<close> is represented by the buffer sources created on it, in
  creation order; a source's handle is its index. Of a decoded \<^verbatim>\<open>AudioBuffer\<close> the handler
  reads the duration only.
\<close>

datatype model_state = Idle | Listening | Speaking

record buffer_source =
  start_at :: real
  buf_duration :: real
  stopped :: bool

record output_ctx =
  buffer_sources :: "buffer_source list"

record live_message =
  audioData :: "string option"
  interrupted :: bool

record live_session =
  modelState :: model_state
  isConnected :: bool
  audioContextRef :: "output_ctx option"
  nextStartTimeRef :: real
  sourcesRef :: "nat set"
  analyserRef :: "nat option"
  currentVolume :: real

text \<open>
  How the body of the asynchronous handler ends: it runs to its end, it leaves through
  \<^verbatim>\<open>return\<close>, or the awaited \<^verbatim>\<open>decodeAudioData\<close> throws and the exception leaves the
  handler, which has no \<^verbatim>\<open>try\<close> around it.
\<close>

datatype flow = Continue | Return | Throw

datatype outcome = Resolved | Rejected

text \<open>The state right after \<^verbatim>\<open>connectToLiveAPI\<close> has created the output context.\<close>

definition connected_session :: live_session where
  "connected_session =
     \<lparr>modelState = Idle, isConnected = False,
      audioContextRef = Some \<lparr>buffer_sources = []\<rparr>,
      nextStartTimeRef = 0, sourcesRef = {}, analyserRef = None, currentVolume = 0\<rparr>"

definition onopen :: "live_session \<Rightarrow> live_session" where
  "onopen s = s\<lparr>isConnected := True, modelState := Listening\<rparr>"

text \<open>
  Lines 160 to 173: create the source for a decoded buffer of duration \<open>d\<close>, start it at the
  cursor, advance the cursor, and add the source to \<^verbatim>\<open>sourcesRef\<close>.
\<close>

definition schedule_source :: "real \<Rightarrow> output_ctx \<Rightarrow> live_session \<Rightarrow> live_session" where
  "schedule_source d ctx s =
     (let source = length (buffer_sources ctx);
          ctx' = ctx\<lparr>buffer_sources := buffer_sources ctx @
                   [\<lparr>start_at = nextStartTimeRef s, buf_duration = d, stopped = False\<rparr>]\<rparr>
      in s\<lparr>audioContextRef := Some ctx',
           analyserRef := Some source,
           nextStartTimeRef := nextStartTimeRef s + d,
           sourcesRef := insert source (sourcesRef s)\<rparr>)"

text \<open>
  Lines 146 to 183, for a truthy \<^verbatim>\<open>audioData\<close>. \<open>decodeAudioData\<close> stands for
  \<^verbatim>\<open>decodeAudioData(base64ToUint8Array(audioData), ctx)\<close>, whose code is in
  \<^verbatim>\<open>utils/audioUtils\<close>: it yields the duration of the decoded buffer, or \<open>None\<close> when it
  throws. \<open>now\<close> is \<^verbatim>\<open>ctx.currentTime\<close> as read on line 153.
\<close>

definition handle_audio ::
  "(string \<Rightarrow> real option) \<Rightarrow> real \<Rightarrow> string \<Rightarrow> live_session \<Rightarrow> flow \<times> live_session" where
  "handle_audio decodeAudioData now payload s =
     (let s1 = s\<lparr>modelState := Speaking\<rparr> in
      case audioContextRef s1 of
        None \<Rightarrow> (Return, s1)
      | Some ctx \<Rightarrow>
          (let s2 = s1\<lparr>nextStartTimeRef := max (nextStartTimeRef s1) now\<rparr> in
           case decodeAudioData payload of
             None \<Rightarrow> (Throw, s2)
           | Some d \<Rightarrow> (Continue, schedule_source d ctx s2)))"

text \<open>
  \<^verbatim>\<open>src.stop()\<close> for every member of \<^verbatim>\<open>sourcesRef\<close>. Every member has been started, so
  \<^verbatim>\<open>stop\<close> does not throw and the \<^verbatim>\<open>catch\<close> is not entered.
\<close>

definition stop_sources :: "nat set \<Rightarrow> output_ctx \<Rightarrow> output_ctx" where
  "stop_sources hs ctx =
     ctx\<lparr>buffer_sources :=
           map (\<lambda>(h, src). if h \<in> hs then src\<lparr>stopped := True\<rparr> else src)
               (zip [0..<length (buffer_sources ctx)] (buffer_sources ctx))\<rparr>"

text \<open>Lines 186 to 199; \<open>now\<close> is \<^verbatim>\<open>currentTime\<close> as read on line 196.\<close>

definition handle_interrupted :: "real \<Rightarrow> live_session \<Rightarrow> live_session" where
  "handle_interrupted now s =
     (let s1 = s\<lparr>audioContextRef := map_option (stop_sources (sourcesRef s)) (audioContextRef s)\<rparr>;
          s2 = s1\<lparr>sourcesRef := {}\<rparr>;
          s3 = (case audioContextRef s2 of
                  None \<Rightarrow> s2
                | Some ctx \<Rightarrow> s2\<lparr>nextStartTimeRef := now\<rparr>)
      in s3\<lparr>modelState := Listening\<rparr>)"

text \<open>
  The whole handler. \<open>t_audio\<close> and \<open>t_int\<close> are the two readings of the context's clock
  (lines 153 and 196); an empty string is falsy, like a missing field. The handler is one
  step of the session: no other callback is taken to run while it awaits the decoder.
\<close>

definition onmessage ::
  "(string \<Rightarrow> real option) \<Rightarrow> real \<Rightarrow> real \<Rightarrow> live_message \<Rightarrow> live_session
     \<Rightarrow> outcome \<times> live_session" where
  "onmessage decodeAudioData t_audio t_int message s =
     (let (fl, s1) =
            (case audioData message of
               None \<Rightarrow> (Continue, s)
             | Some payload \<Rightarrow>
                 if payload = [] then (Continue, s)
                 else handle_audio decodeAudioData t_audio payload s)
      in case fl of
           Throw \<Rightarrow> (Rejected, s1)
         | Return \<Rightarrow> (Resolved, s1)
         | Continue \<Rightarrow>
             (Resolved, if interrupted message then handle_interrupted t_int s1 else s1))"

text \<open>Lines 175 to 182: the \<^verbatim>\<open>onended\<close> callback of the source with handle \<open>source\<close>.\<close>

definition onended :: "nat \<Rightarrow> live_session \<Rightarrow> live_session" where
  "onended source s =
     (let s1 = s\<lparr>sourcesRef := sourcesRef s - {source}\<rparr>
      in if sourcesRef s1 = {}
         then s1\<lparr>modelState := Listening, analyserRef := None, currentVolume := 0\<rparr>
         else s1)"


text \<open>
  Deliveries used to state properties of the handler. The SDK calls \<^verbatim>\<open>onmessage\<close> once per
  server message; \<open>play_chunks\<close> delivers audio-only messages one after the other, each
  handler finishing before the next message arrives, the \<open>i\<close>-th at clock reading
  \<open>fst (cs ! i)\<close>.
\<close>

definition chunk_message :: "string \<Rightarrow> live_message" where
  "chunk_message payload = \<lparr>audioData = Some payload, interrupted = False\<rparr>"

definition interrupt_message :: live_message where
  "interrupt_message = \<lparr>audioData = None, interrupted = True\<rparr>"

fun play_chunks ::
  "(string \<Rightarrow> real option) \<Rightarrow> (real \<times> string) list \<Rightarrow> live_session \<Rightarrow> live_session" where
  "play_chunks dec [] s = s"
| "play_chunks dec ((now, payload) # cs) s =
     play_chunks dec cs (snd (onmessage dec now now (chunk_message payload) s))"

text \<open>The sources created on the output context so far, and those a delivery adds.\<close>

definition sources_of :: "live_session \<Rightarrow> buffer_source list" where
  "sources_of s = (case audioContextRef s of None \<Rightarrow> [] | Some c \<Rightarrow> buffer_sources c)"

definition scheduled ::
  "(string \<Rightarrow> real option) \<Rightarrow> (real \<times> string) list \<Rightarrow> live_session \<Rightarrow> buffer_source list" where
  "scheduled dec cs s = drop (length (sources_of s)) (sources_of (play_chunks dec cs s))"

text \<open>
  The relation between the displayed state and the set of sources that the session is
  meant to keep: speaking exactly when a source is registered, listening exactly when none is.
\<close>

definition state_derived :: "live_session \<Rightarrow> bool" where
  "state_derived s \<longleftrightarrow>
     (modelState s = Speaking \<longleftrightarrow> sourcesRef s \<noteq> {}) \<and>
     (modelState s = Listening \<longleftrightarrow> sourcesRef s = {})"

text \<open>
  Sample inputs: a decoder that accepts one payload and yields a buffer of two seconds, the
  session right after \<^verbatim>\<open>onopen\<close>, and the session after two chunks have been scheduled.
\<close>

definition demo_decoder :: "string \<Rightarrow> real option" where
  "demo_decoder payload = (if payload = ''AAAA'' then Some 2 else None)"

definition open_session :: live_session where
  "open_session = onopen connected_session"

definition two_playing :: live_session where
  "two_playing = play_chunks demo_decoder [(0, ''AAAA''), (1, ''AAAA'')] open_session"


section \<open>The music engine (class LyriaEngine)\<close>

text \<open>
  The engine builds a Web Audio graph. A context is represented by the nodes created on
  it, in creation order (a node's handle is its index; node 0 is the destination), and by
  the list of connections made. Parameter values are JavaScript numbers, modelled as reals.
  For an oscillator or a buffer source the node records the time given to \<^verbatim>\<open>start\<close> and
  whether \<^verbatim>\<open>stop\<close> has taken effect; for a gain node its \<^verbatim>\<open>gain.value\<close> and the
  \<^verbatim>\<open>setTargetAtTime\<close> calls made on it (target, start time, time constant). Where
  \<^verbatim>\<open>play\<close> assigns the properties of a node it has just created, the node is created with
  these values; nothing reads them in between.
\<close>

datatype osc_type = Sine | Square

datatype filter_type = Lowpass

type_synonym audio_buffer = "real list list"

datatype audio_node =
    Destination
  | Gain real "(real \<times> real \<times> real) list"
  | Oscillator osc_type real "real option" bool
  | BufferSource audio_buffer bool "real option" bool
  | BiquadFilter filter_type real real
  | ChannelMerger nat

datatype audio_param = GainParam | FrequencyParam

datatype dest = NodeInput nat nat | ParamInput nat audio_param

type_synonym connection = "nat \<times> nat \<times> dest"

datatype ctx_state = Suspended | Running

record audio_ctx =
  nodes :: "audio_node list"
  connections :: "connection list"
  ctx_state :: ctx_state
  sampleRate :: nat

record config =
  binauralFreq :: real
  baseFreq :: real
  isochronic :: bool
  theme :: string

record lyria_engine =
  ctx :: "audio_ctx option"
  masterGain :: "nat option"
  binauralLeft :: "nat option"
  binauralRight :: "nat option"
  isochronicOsc :: "nat option"
  isochronicLFO :: "nat option"
  ambientSource :: "nat option"
  isPlaying :: bool

text \<open>
  What a call of \<^verbatim>\<open>play\<close> reads from the platform: the clock of the context (line 36),
  the sample rate and the state of a context created by \<^verbatim>\<open>new AudioContext()\<close>, and the
  successive results of \<^verbatim>\<open>Math.random()\<close>. Creating a context is taken to succeed.
\<close>

record play_env =
  currentTime :: real
  hw_sampleRate :: nat
  created_state :: ctx_state
  random :: "nat \<Rightarrow> real"

datatype js_error = TypeError

datatype completion = Normal | Threw js_error

definition new_engine :: lyria_engine where
  "new_engine =
     \<lparr>ctx = None, masterGain = None, binauralLeft = None, binauralRight = None,
      isochronicOsc = None, isochronicLFO = None, ambientSource = None, isPlaying = False\<rparr>"

subsection \<open>Operations on a context\<close>

definition add_node :: "audio_node \<Rightarrow> audio_ctx \<Rightarrow> nat \<times> audio_ctx" where
  "add_node n c = (length (nodes c), c\<lparr>nodes := nodes c @ [n]\<rparr>)"

definition connect :: "nat \<Rightarrow> nat \<Rightarrow> dest \<Rightarrow> audio_ctx \<Rightarrow> audio_ctx" where
  "connect src out d c = c\<lparr>connections := connections c @ [(src, out, d)]\<rparr>"

fun start_node :: "real \<Rightarrow> audio_node \<Rightarrow> audio_node" where
  "start_node t (Oscillator ty f _ st) = Oscillator ty f (Some t) st"
| "start_node t (BufferSource b l _ st) = BufferSource b l (Some t) st"
| "start_node t n = n"

text \<open>
  \<^verbatim>\<open>stop()\<close> on a node that was never started throws; every call site wraps it in
  \<^verbatim>\<open>try { ... } catch(e) {}\<close>, so the node is then left as it is.
\<close>

fun stop_node :: "audio_node \<Rightarrow> audio_node" where
  "stop_node (Oscillator ty f (Some t) _) = Oscillator ty f (Some t) True"
| "stop_node (BufferSource b l (Some t) _) = BufferSource b l (Some t) True"
| "stop_node n = n"

definition start :: "nat \<Rightarrow> real \<Rightarrow> audio_ctx \<Rightarrow> audio_ctx" where
  "start i t c = c\<lparr>nodes := (nodes c)[i := start_node t (nodes c ! i)]\<rparr>"

definition stop_ref :: "nat option \<Rightarrow> audio_ctx option \<Rightarrow> audio_ctx option" where
  "stop_ref r co =
     (case r of
        None \<Rightarrow> co
      | Some i \<Rightarrow> map_option (\<lambda>c. c\<lparr>nodes := (nodes c)[i := stop_node (nodes c ! i)]\<rparr>) co)"

definition resume :: "audio_ctx \<Rightarrow> audio_ctx" where
  "resume c = (if ctx_state c = Suspended then c\<lparr>ctx_state := Running\<rparr> else c)"

fun set_target :: "real \<Rightarrow> real \<Rightarrow> real \<Rightarrow> audio_node \<Rightarrow> audio_node" where
  "set_target v t tc (Gain g evs) = Gain g (evs @ [(v, t, tc)])"
| "set_target v t tc n = n"

subsection \<open>The noise buffer (lines 43 to 54)\<close>

text \<open>
  The inner loop over the samples of one channel. \<open>k\<close> counts the calls of
  \<^verbatim>\<open>Math.random()\<close> made so far, \<open>n\<close> the samples still to write; the result is the
  channel's data and the value of \<^verbatim>\<open>lastOut\<close> after the loop. The channel data is a
  \<^verbatim>\<open>Float32Array\<close>; its rounding to single precision is not represented.
\<close>

fun fill_channel :: "(nat \<Rightarrow> real) \<Rightarrow> nat \<Rightarrow> nat \<Rightarrow> real \<Rightarrow> real list \<times> real" where
  "fill_channel rnd k 0 lastOut = ([], lastOut)"
| "fill_channel rnd k (Suc n) lastOut =
     (let white = rnd k * 2 - 1;
          out = (lastOut + 0.02 * white) / 1.02;
          (rest, lastOut') = fill_channel rnd (Suc k) n out
      in (out * 3.5 # rest, lastOut'))"

text \<open>The outer loop over the channels; \<^verbatim>\<open>lastOut\<close> is declared before it.\<close>

fun fill_channels :: "(nat \<Rightarrow> real) \<Rightarrow> nat \<Rightarrow> nat \<Rightarrow> nat \<Rightarrow> real \<Rightarrow> audio_buffer" where
  "fill_channels rnd k 0 bufferSize lastOut = []"
| "fill_channels rnd k (Suc channels) bufferSize lastOut =
     (let (data, lastOut') = fill_channel rnd k bufferSize lastOut
      in data # fill_channels rnd (k + bufferSize) channels bufferSize lastOut')"

definition noise_buffer :: "(nat \<Rightarrow> real) \<Rightarrow> nat \<Rightarrow> audio_buffer" where
  "noise_buffer rnd bufferSize = fill_channels rnd 0 2 bufferSize 0"

text \<open>
  The recurrence \<open>out = (prev + 0.02 \<cdot> white) / 1.02\<close> with \<open>prev\<close> starting at 0, as the
  specification words it, over a sequence \<open>w\<close> of white samples.
\<close>

fun one_pole :: "(nat \<Rightarrow> real) \<Rightarrow> nat \<Rightarrow> real" where
  "one_pole w 0 = (0 + 0.02 * w 0) / 1.02"
| "one_pole w (Suc i) = (one_pole w i + 0.02 * w (Suc i)) / 1.02"

definition white_of :: "(nat \<Rightarrow> real) \<Rightarrow> nat \<Rightarrow> real" where
  "white_of rnd k = rnd k * 2 - 1"

subsection \<open>init, stop, play, setVolume, destroy\<close>

definition init :: "play_env \<Rightarrow> lyria_engine \<Rightarrow> lyria_engine" where
  "init env e =
     (let c0 = \<lparr>nodes = [Destination], connections = [],
                ctx_state = created_state env, sampleRate = hw_sampleRate env\<rparr>;
          (master, c1) = add_node (Gain 0.5 []) c0;
          c2 = connect master 0 (NodeInput 0 0) c1
      in e\<lparr>ctx := Some c2, masterGain := Some master\<rparr>)"

definition stop :: "lyria_engine \<Rightarrow> lyria_engine" where
  "stop e =
     e\<lparr>isPlaying := False,
       ctx := stop_ref (isochronicLFO e) (stop_ref (isochronicOsc e) (stop_ref (binauralRight e)
                (stop_ref (binauralLeft e) (stop_ref (ambientSource e) (ctx e))))),
       ambientSource := None, binauralLeft := None, binauralRight := None,
       isochronicOsc := None, isochronicLFO := None\<rparr>"

text \<open>
  Lines 38 to 79: the ambient pad up to, and without, its connection to the master gain.
  The result is the buffer source, the pad's gain node and the context.
\<close>

definition ambient_pad :: "play_env \<Rightarrow> real \<Rightarrow> audio_ctx \<Rightarrow> nat \<times> nat \<times> audio_ctx" where
  "ambient_pad env t c0 =
     (let bufferSize = sampleRate c0 * 5;
          buffer = noise_buffer (random env) bufferSize;
          (source, c1) = add_node (BufferSource buffer True None False) c0;
          (filter, c2) = add_node (BiquadFilter Lowpass 400 1) c1;
          (filterLFO, c3) = add_node (Oscillator Sine 0.1 None False) c2;
          (lfoGain, c4) = add_node (Gain 200 []) c3;
          c5 = connect filterLFO 0 (NodeInput lfoGain 0) c4;
          c6 = connect lfoGain 0 (ParamInput filter FrequencyParam) c5;
          c7 = start filterLFO t c6;
          (ambientGain, c8) = add_node (Gain 0.15 []) c7;
          c9 = connect source 0 (NodeInput filter 0) c8;
          c10 = connect filter 0 (NodeInput ambientGain 0) c9
      in (source, ambientGain, c10))"

text \<open>Lines 84 to 110. The result is the left and the right oscillator and the context.\<close>

definition binaural_beats :: "config \<Rightarrow> real \<Rightarrow> nat \<Rightarrow> audio_ctx \<Rightarrow> nat \<times> nat \<times> audio_ctx" where
  "binaural_beats cfg t master c0 =
     (let (merger, c1) = add_node (ChannelMerger 2) c0;
          (left, c2) = add_node (Oscillator Sine (baseFreq cfg) None False) c1;
          (right, c3) = add_node (Oscillator Sine (baseFreq cfg + binauralFreq cfg) None False) c2;
          c4 = connect left 0 (NodeInput merger 0) c3;
          c5 = connect right 0 (NodeInput merger 1) c4;
          (binauralGain, c6) = add_node (Gain 0.1 []) c5;
          c7 = connect merger 0 (NodeInput binauralGain 0) c6;
          c8 = connect binauralGain 0 (NodeInput master 0) c7;
          c9 = start left t c8;
          c10 = start right t c9
      in (left, right, c10))"

text \<open>
  Lines 115 to 144, the body of \<^verbatim>\<open>if (config.isochronic)\<close>. The result is the carrier, the
  square-wave oscillator and the context.
\<close>

definition isochronic_tones :: "config \<Rightarrow> real \<Rightarrow> nat \<Rightarrow> audio_ctx \<Rightarrow> nat \<times> nat \<times> audio_ctx" where
  "isochronic_tones cfg t master c0 =
     (let (osc, c1) = add_node (Oscillator Sine 150 None False) c0;
          (lfo, c2) = add_node (Oscillator Square (binauralFreq cfg) None False) c1;
          (isoGain, c3) = add_node (Gain 0 []) c2;
          (lfoGainNode, c4) = add_node (Gain 1.0 []) c3;
          c5 = connect lfo 0 (NodeInput lfoGainNode 0) c4;
          c6 = connect lfoGainNode 0 (ParamInput isoGain GainParam) c5;
          c7 = connect osc 0 (NodeInput isoGain 0) c6;
          c8 = connect isoGain 0 (NodeInput master 0) c7;
          c9 = connect lfo 0 (ParamInput isoGain GainParam) c8;
          c10 = start osc t c9;
          c11 = start lfo t c10
      in (osc, lfo, c11))"

text \<open>
  Lines 36 to 145 of \<^verbatim>\<open>play\<close>: the three layers are built on the context of the engine.
  The non-null assertions \<^verbatim>\<open>this.ctx!\<close> and \<^verbatim>\<open>this.masterGain!\<close> are erased by the
  compiler: reading \<^verbatim>\<open>currentTime\<close> of \<^verbatim>\<open>null\<close> and connecting to \<^verbatim>\<open>null\<close> throw a
  \<^verbatim>\<open>TypeError\<close>.
\<close>

definition build_layers :: "config \<Rightarrow> play_env \<Rightarrow> lyria_engine \<Rightarrow> completion \<times> lyria_engine" where
  "build_layers cfg env e3 =
     (case ctx e3 of
        None \<Rightarrow> (Threw TypeError, e3)
      | Some c0 \<Rightarrow>
          (let t = currentTime env;
               (source, ambientGain, c1) = ambient_pad env t c0;
               e4 = e3\<lparr>ambientSource := Some source, ctx := Some c1\<rparr>
           in case masterGain e4 of
                None \<Rightarrow> (Threw TypeError, e4)
              | Some master \<Rightarrow>
                  (let c2 = start source t (connect ambientGain 0 (NodeInput master 0) c1);
                       (left, right, c3) = binaural_beats cfg t master c2;
                       e5 = e4\<lparr>binauralLeft := Some left, binauralRight := Some right,
                               ctx := Some c3\<rparr>
                   in if isochronic cfg
                      then (let (osc, lfo, c4) = isochronic_tones cfg t master c3
                            in (Normal, e5\<lparr>isochronicOsc := Some osc, isochronicLFO := Some lfo,
                                          ctx := Some c4\<rparr>))
                      else (Normal, e5))))"

text \<open>
  Lines 30 to 34 of \<^verbatim>\<open>play\<close>: create the context on first use, resume it when it is
  suspended, stop what an earlier call started, and set the flag. Both awaits are taken to
  complete before any other call on the engine runs.
\<close>

definition prepare :: "play_env \<Rightarrow> lyria_engine \<Rightarrow> lyria_engine" where
  "prepare env e0 =
     (let e1 = (if ctx e0 = None then init env e0 else e0);
          e2 = e1\<lparr>ctx := map_option resume (ctx e1)\<rparr>
      in (stop e2)\<lparr>isPlaying := True\<rparr>)"

definition play :: "config \<Rightarrow> play_env \<Rightarrow> lyria_engine \<Rightarrow> completion \<times> lyria_engine" where
  "play cfg env e0 = build_layers cfg env (prepare env e0)"

text \<open>\<^verbatim>\<open>setVolume\<close>; \<open>now\<close> is \<^verbatim>\<open>this.ctx!.currentTime\<close>.\<close>

definition setVolume :: "real \<Rightarrow> real \<Rightarrow> lyria_engine \<Rightarrow> completion \<times> lyria_engine" where
  "setVolume val now e =
     (case masterGain e of
        None \<Rightarrow> (Normal, e)
      | Some master \<Rightarrow>
          (case ctx e of
             None \<Rightarrow> (Threw TypeError, e)
           | Some c \<Rightarrow>
               (Normal, e\<lparr>ctx := Some (c\<lparr>nodes := (nodes c)[master :=
                                       set_target val now 0.1 (nodes c ! master)]\<rparr>)\<rparr>)))"

text \<open>
  \<^verbatim>\<open>destroy\<close>. Closing the context ends all processing on it; the engine drops its
  reference, and the closed context is not represented further.
\<close>

definition destroy :: "lyria_engine \<Rightarrow> lyria_engine" where
  "destroy e =
     (let e1 = stop e
      in case ctx e1 of None \<Rightarrow> e1 | Some c \<Rightarrow> e1\<lparr>ctx := None\<rparr>)"

text \<open>Observations on an engine used to state its properties.\<close>

definition running :: "audio_node \<Rightarrow> bool" where
  "running n =
     (case n of
        Oscillator ty f st sp \<Rightarrow> st \<noteq> None \<and> \<not> sp
      | BufferSource b l st sp \<Rightarrow> st \<noteq> None \<and> \<not> sp
      | _ \<Rightarrow> False)"

definition running_nodes :: "lyria_engine \<Rightarrow> nat list" where
  "running_nodes e =
     (case ctx e of
        None \<Rightarrow> []
      | Some c \<Rightarrow> map fst (filter (\<lambda>(i, n). running n) (enumerate 0 (nodes c))))"

definition held_nodes :: "lyria_engine \<Rightarrow> nat set" where
  "held_nodes e =
     set_option (ambientSource e) \<union> set_option (binauralLeft e) \<union> set_option (binauralRight e) \<union>
     set_option (isochronicOsc e) \<union> set_option (isochronicLFO e)"

definition master_level :: "lyria_engine \<Rightarrow> real option" where
  "master_level e =
     (case (ctx e, masterGain e) of
        (Some c, Some master) \<Rightarrow>
          (case nodes c ! master of Gain g evs \<Rightarrow> Some g | _ \<Rightarrow> None)
      | _ \<Rightarrow> None)"

definition outputs_of :: "nat \<Rightarrow> audio_ctx \<Rightarrow> connection list" where
  "outputs_of i c = filter (\<lambda>(src, out, d). src = i) (connections c)"

definition inputs_of :: "nat \<Rightarrow> nat \<Rightarrow> audio_ctx \<Rightarrow> connection list" where
  "inputs_of i inp c = filter (\<lambda>(src, out, d). d = NodeInput i inp) (connections c)"

text \<open>
  What a call of \<^verbatim>\<open>play\<close> that meets no \<^verbatim>\<open>null\<close> appends to a context \<open>c\<close> with \<open>k\<close>
  nodes whose master gain is \<open>master\<close>: the nodes in creation order, each source with the
  start time it has at the end of the call, and the connections in the order they are made.
\<close>

definition played_nodes :: "config \<Rightarrow> play_env \<Rightarrow> audio_ctx \<Rightarrow> audio_node list" where
  "played_nodes cfg env c =
     [BufferSource (noise_buffer (random env) (sampleRate c * 5)) True (Some (currentTime env)) False,
      BiquadFilter Lowpass 400 1,
      Oscillator Sine 0.1 (Some (currentTime env)) False,
      Gain 200 [],
      Gain 0.15 [],
      ChannelMerger 2,
      Oscillator Sine (baseFreq cfg) (Some (currentTime env)) False,
      Oscillator Sine (baseFreq cfg + binauralFreq cfg) (Some (currentTime env)) False,
      Gain 0.1 []] @
     (if isochronic cfg
      then [Oscillator Sine 150 (Some (currentTime env)) False,
            Oscillator Square (binauralFreq cfg) (Some (currentTime env)) False,
            Gain 0 [],
            Gain 1 []]
      else [])"

definition played_connections :: "config \<Rightarrow> nat \<Rightarrow> nat \<Rightarrow> connection list" where
  "played_connections cfg master k =
     [(k + 2, 0, NodeInput (k + 3) 0),
      (k + 3, 0, ParamInput (k + 1) FrequencyParam),
      (k, 0, NodeInput (k + 1) 0),
      (k + 1, 0, NodeInput (k + 4) 0),
      (k + 4, 0, NodeInput master 0),
      (k + 6, 0, NodeInput (k + 5) 0),
      (k + 7, 0, NodeInput (k + 5) 1),
      (k + 5, 0, NodeInput (k + 8) 0),
      (k + 8, 0, NodeInput master 0)] @
     (if isochronic cfg
      then [(k + 10, 0, NodeInput (k + 12) 0),
            (k + 12, 0, ParamInput (k + 11) GainParam),
            (k + 9, 0, NodeInput (k + 11) 0),
            (k + 11, 0, NodeInput master 0),
            (k + 10, 0, ParamInput (k + 11) GainParam)]
      else [])"

text \<open>
  The references held by an engine with a context point into it: the master gain is a node
  of the context, and so are both ends of every connection.
\<close>

fun dest_node :: "dest \<Rightarrow> nat" where
  "dest_node (NodeInput i inp) = i"
| "dest_node (ParamInput i p) = i"

definition wf_engine :: "lyria_engine \<Rightarrow> bool" where
  "wf_engine e \<longleftrightarrow>
     (case ctx e of
        None \<Rightarrow> True
      | Some c \<Rightarrow>
          (case masterGain e of
             None \<Rightarrow> False
           | Some master \<Rightarrow> master < length (nodes c)) \<and>
          (\<forall>(src, out, d) \<in> set (connections c).
             src < length (nodes c) \<and> dest_node d < length (nodes c)))"

text \<open>
  Sample inputs: a random source, an environment with clock reading \<open>t\<close>, the configuration
  that \<^verbatim>\<open>generateSessionPlan\<close> falls back to, and the engine after one and after two calls
  of \<^verbatim>\<open>play\<close>.
\<close>

definition demo_random :: "nat \<Rightarrow> real" where
  "demo_random k = 1 / 2"

definition demo_env :: "real \<Rightarrow> play_env" where
  "demo_env t = \<lparr>currentTime = t, hw_sampleRate = 44100, created_state = Suspended, random = demo_random\<rparr>"

definition demo_config :: config where
  "demo_config = \<lparr>binauralFreq = 6, baseFreq = 200, isochronic = False, theme = ''nebula''\<rparr>"

definition played_once :: lyria_engine where
  "played_once = snd (play demo_config (demo_env 0) new_engine)"

definition played_twice :: lyria_engine where
  "played_twice = snd (play demo_config (demo_env 10) played_once)"

text \<open>
  For the noise buffer: the value of \<^verbatim>\<open>lastOut\<close> before the \<open>k\<close>-th call of
  \<^verbatim>\<open>Math.random()\<close>, the white samples that fall to one channel, and a random source that
  always returns 0.
\<close>

definition prev_at :: "(nat \<Rightarrow> real) \<Rightarrow> nat \<Rightarrow> real" where
  "prev_at w k = (if k = 0 then 0 else one_pole w (k - 1))"

definition channel_white :: "(nat \<Rightarrow> real) \<Rightarrow> nat \<Rightarrow> nat \<Rightarrow> nat \<Rightarrow> real" where
  "channel_white rnd bufferSize channel i = white_of rnd (channel * bufferSize + i)"

definition zero_random :: "nat \<Rightarrow> real" where
  "zero_random k = 0"


section \<open>Properties of the playback scheduler\<close>

subsection \<open>One decodable chunk\<close>

lemma good_chunk_step:
  assumes "audioContextRef s = Some c" "payload \<noteq> []" "dec payload = Some d"
  shows "snd (onmessage dec now t2 (chunk_message payload) s) =
           s\<lparr>modelState := Speaking,
             audioContextRef := Some (c\<lparr>buffer_sources := buffer_sources c @
                [\<lparr>start_at = max (nextStartTimeRef s) now, buf_duration = d, stopped = False\<rparr>]\<rparr>),
             analyserRef := Some (length (buffer_sources c)),
             nextStartTimeRef := max (nextStartTimeRef s) now + d,
             sourcesRef := insert (length (buffer_sources c)) (sourcesRef s)\<rparr>"
  using assms
  by (simp add: onmessage_def handle_audio_def schedule_source_def chunk_message_def Let_def)

lemma good_chunk_sources:
  assumes "audioContextRef s = Some c" "payload \<noteq> []" "dec payload = Some d"
  shows "sources_of (snd (onmessage dec now t2 (chunk_message payload) s)) =
           sources_of s @ [\<lparr>start_at = max (nextStartTimeRef s) now, buf_duration = d, stopped = False\<rparr>]"
    and "nextStartTimeRef (snd (onmessage dec now t2 (chunk_message payload) s)) = max (nextStartTimeRef s) now + d"
    and "audioContextRef (snd (onmessage dec now t2 (chunk_message payload) s)) \<noteq> None"
  using assms by (simp_all add: good_chunk_step sources_of_def)

lemmas session_defs = onmessage_def handle_audio_def schedule_source_def chunk_message_def
  handle_interrupted_def stop_sources_def onopen_def connected_session_def sources_of_def scheduled_def
  interrupt_message_def demo_decoder_def open_session_def

lemma two_playing_eq:
  "two_playing =
     \<lparr>modelState = Speaking, isConnected = True,
      audioContextRef = Some \<lparr>buffer_sources =
         [\<lparr>start_at = 0, buf_duration = 2, stopped = False\<rparr>,
          \<lparr>start_at = 2, buf_duration = 2, stopped = False\<rparr>]\<rparr>,
      nextStartTimeRef = 4, sourcesRef = {0, 1}, analyserRef = Some 1, currentVolume = 0\<rparr>"
  by (simp add: two_playing_def session_defs Let_def insert_commute)

subsection \<open>Sequences of chunks\<close>

lemma play_chunks_trace:
  assumes "audioContextRef s \<noteq> None"
    and "\<forall>(now, p) \<in> set cs. p \<noteq> [] \<and> dec p \<noteq> None"
  shows "\<exists>new. sources_of (play_chunks dec cs s) = sources_of s @ new \<and> length new = length cs \<and>
           audioContextRef (play_chunks dec cs s) \<noteq> None \<and>
           (\<forall>i<length cs.
              start_at (new ! i) = max (nextStartTimeRef (play_chunks dec (take i cs) s)) (fst (cs ! i)) \<and>
              dec (snd (cs ! i)) = Some (buf_duration (new ! i)) \<and>
              nextStartTimeRef (play_chunks dec (take (Suc i) cs) s) = start_at (new ! i) + buf_duration (new ! i))"
  using assms
proof (induction cs arbitrary: s)
  case Nil
  then show ?case by simp
next
  case (Cons x cs)
  obtain now p where x: "x = (now, p)" by (cases x)
  from Cons.prems obtain c where c: "audioContextRef s = Some c" by auto
  from Cons.prems x obtain d where d: "p \<noteq> []" "dec p = Some d" by auto
  let ?s1 = "snd (onmessage dec now now (chunk_message p) s)"
  let ?n0 = "\<lparr>start_at = max (nextStartTimeRef s) now, buf_duration = d, stopped = False\<rparr>"
  have s1: "sources_of ?s1 = sources_of s @ [?n0]"
     "nextStartTimeRef ?s1 = max (nextStartTimeRef s) now + d" "audioContextRef ?s1 \<noteq> None"
    using good_chunk_sources[of s c p dec d now now] c d by simp_all
  from Cons.prems have rest: "\<forall>(now, p) \<in> set cs. p \<noteq> [] \<and> dec p \<noteq> None" by simp
  from Cons.IH[OF s1(3) rest] obtain new where new:
    "sources_of (play_chunks dec cs ?s1) = sources_of ?s1 @ new" "length new = length cs"
    "audioContextRef (play_chunks dec cs ?s1) \<noteq> None"
    "\<forall>i<length cs.
        start_at (new ! i) = max (nextStartTimeRef (play_chunks dec (take i cs) ?s1)) (fst (cs ! i)) \<and>
        dec (snd (cs ! i)) = Some (buf_duration (new ! i)) \<and>
        nextStartTimeRef (play_chunks dec (take (Suc i) cs) ?s1) = start_at (new ! i) + buf_duration (new ! i)"
    by blast
  have "\<forall>i<length (x # cs).
      start_at ((?n0 # new) ! i) = max (nextStartTimeRef (play_chunks dec (take i (x # cs)) s)) (fst ((x # cs) ! i)) \<and>
      dec (snd ((x # cs) ! i)) = Some (buf_duration ((?n0 # new) ! i)) \<and>
      nextStartTimeRef (play_chunks dec (take (Suc i) (x # cs)) s) = start_at ((?n0 # new) ! i) + buf_duration ((?n0 # new) ! i)"
  proof (intro allI impI)
    fix i assume i: "i < length (x # cs)"
    show "start_at ((?n0 # new) ! i) = max (nextStartTimeRef (play_chunks dec (take i (x # cs)) s)) (fst ((x # cs) ! i)) \<and>
      dec (snd ((x # cs) ! i)) = Some (buf_duration ((?n0 # new) ! i)) \<and>
      nextStartTimeRef (play_chunks dec (take (Suc i) (x # cs)) s) = start_at ((?n0 # new) ! i) + buf_duration ((?n0 # new) ! i)"
    proof (cases i)
      case 0
      then show ?thesis using x d s1 by simp
    next
      case (Suc j)
      then have "j < length cs" using i by simp
      with new(4) Suc x show ?thesis by simp
    qed
  qed
  moreover have "sources_of (play_chunks dec (x # cs) s) = sources_of s @ (?n0 # new)"
    using new(1) s1(1) x by simp
  moreover have "length (?n0 # new) = length (x # cs)" using new(2) by simp
  moreover have "audioContextRef (play_chunks dec (x # cs) s) \<noteq> None" using new(3) x by simp
  ultimately show ?case by blast
qed

text \<open>
  Claim C1 (gapless scheduling). Chunks that all decode are delivered in order to a session
  with an output context. For each chunk the source is started at the maximum of the cursor
  and the clock reading at arrival, its duration is the decoded one, and the cursor becomes
  start plus duration. When every chunk arrives no later than the scheduled end of its
  predecessor, each start time is the predecessor's start time plus the predecessor's
  duration.
\<close>

theorem gapless_scheduling:
  assumes ctx: "audioContextRef s \<noteq> None"
    and decodable: "\<forall>(now, p) \<in> set cs. p \<noteq> [] \<and> dec p \<noteq> None"
    and in_time: "\<forall>i. Suc i < length cs \<longrightarrow>
           fst (cs ! Suc i) \<le> start_at (scheduled dec cs s ! i) + buf_duration (scheduled dec cs s ! i)"
  shows "length (scheduled dec cs s) = length cs \<and>
         (\<forall>i<length cs.
            start_at (scheduled dec cs s ! i) =
              max (nextStartTimeRef (play_chunks dec (take i cs) s)) (fst (cs ! i)) \<and>
            dec (snd (cs ! i)) = Some (buf_duration (scheduled dec cs s ! i)) \<and>
            nextStartTimeRef (play_chunks dec (take (Suc i) cs) s) =
              start_at (scheduled dec cs s ! i) + buf_duration (scheduled dec cs s ! i)) \<and>
         (\<forall>i. Suc i < length cs \<longrightarrow>
            start_at (scheduled dec cs s ! Suc i) =
              start_at (scheduled dec cs s ! i) + buf_duration (scheduled dec cs s ! i))"
proof -
  from play_chunks_trace[OF ctx decodable] obtain new where new:
    "sources_of (play_chunks dec cs s) = sources_of s @ new" "length new = length cs"
    "\<forall>i<length cs.
        start_at (new ! i) = max (nextStartTimeRef (play_chunks dec (take i cs) s)) (fst (cs ! i)) \<and>
        dec (snd (cs ! i)) = Some (buf_duration (new ! i)) \<and>
        nextStartTimeRef (play_chunks dec (take (Suc i) cs) s) = start_at (new ! i) + buf_duration (new ! i)"
    by blast
  have sched: "scheduled dec cs s = new"
    by (simp add: scheduled_def new(1))
  have "start_at (new ! Suc i) = start_at (new ! i) + buf_duration (new ! i)"
    if i: "Suc i < length cs" for i
  proof -
    from i have "i < length cs" by simp
    with new(3) have cur: "nextStartTimeRef (play_chunks dec (take (Suc i) cs) s) =
        start_at (new ! i) + buf_duration (new ! i)" by blast
    from new(3) i have "start_at (new ! Suc i) =
        max (nextStartTimeRef (play_chunks dec (take (Suc i) cs) s)) (fst (cs ! Suc i))" by blast
    moreover from in_time i have "fst (cs ! Suc i) \<le> start_at (new ! i) + buf_duration (new ! i)"
      by (simp add: sched)
    ultimately show ?thesis using cur by simp
  qed
  with new(2,3) show ?thesis unfolding sched by blast
qed

text \<open>
  Three chunks of two seconds arriving at clock readings 0, 1 and 3 start at 0, 2 and 4.
\<close>

theorem gapless_scheduling_witness:
  "map start_at (scheduled demo_decoder [(0, ''AAAA''), (1, ''AAAA''), (3, ''AAAA'')] open_session)
     = [0, 2, 4] \<and>
   map buf_duration (scheduled demo_decoder [(0, ''AAAA''), (1, ''AAAA''), (3, ''AAAA'')] open_session)
     = [2, 2, 2]"
proof -
  let ?cs = "[(0::real, ''AAAA''), (1, ''AAAA''), (3, ''AAAA'')]"
  have sch: "scheduled demo_decoder ?cs open_session =
     [\<lparr>start_at = 0, buf_duration = 2, stopped = False\<rparr>,
      \<lparr>start_at = 2, buf_duration = 2, stopped = False\<rparr>,
      \<lparr>start_at = 4, buf_duration = 2, stopped = False\<rparr>]"
    by (simp add: session_defs Let_def)
  have h1: "audioContextRef open_session \<noteq> None" by (simp add: session_defs)
  have h2: "\<forall>(now, p) \<in> set ?cs. p \<noteq> [] \<and> demo_decoder p \<noteq> None" by (simp add: demo_decoder_def)
  have h3: "\<forall>i. Suc i < length ?cs \<longrightarrow>
           fst (?cs ! Suc i) \<le> start_at (scheduled demo_decoder ?cs open_session ! i) +
             buf_duration (scheduled demo_decoder ?cs open_session ! i)"
    unfolding sch by (auto simp: less_Suc_eq)
  from gapless_scheduling[OF h1 h2 h3] show ?thesis
    unfolding sch by simp
qed

subsection \<open>Interruption\<close>

lemma stop_sources_length: "length (buffer_sources (stop_sources hs c)) = length (buffer_sources c)"
  by (simp add: stop_sources_def)

lemma stop_sources_nth:
  "h < length (buffer_sources c) \<Longrightarrow>
   buffer_sources (stop_sources hs c) ! h =
     (if h \<in> hs then (buffer_sources c ! h)\<lparr>stopped := True\<rparr> else buffer_sources c ! h)"
  by (simp add: stop_sources_def)

lemma stop_sources_empty: "stop_sources {} c = c"
proof -
  have "map (\<lambda>(h, src). src) (zip [0..<length xs] xs) = xs" for xs :: "buffer_source list"
    by (rule nth_equalityI) simp_all
  then show ?thesis by (simp add: stop_sources_def)
qed

text \<open>
  Claim C2 as stated fails for an engine without active chunks: the handler resets the
  cursor also when \<^verbatim>\<open>sourcesRef\<close> is empty. After \<^verbatim>\<open>onopen\<close> the cursor is 0; an
  interruption at clock reading 5 moves it to 5.
\<close>

theorem interrupt_idle_moves_cursor:
  "sourcesRef open_session = {} \<and>
   nextStartTimeRef (snd (onmessage demo_decoder 5 5 interrupt_message open_session))
     \<noteq> nextStartTimeRef open_session"
  by (simp add: session_defs)

text \<open>
  Claim C2 (interruption), amended. An interruption message without audio, handled by a
  session with an output context, resolves. Afterwards \<^verbatim>\<open>sourcesRef\<close> is empty, the
  cursor is the clock reading \<open>now\<close> and the state is listening, whether or not sources
  were active. Every source that was in \<^verbatim>\<open>sourcesRef\<close> has been stopped and no other
  source is changed; with no active source nothing is stopped. A chunk arriving at the same
  clock reading right afterwards starts at \<open>now\<close>.
\<close>

theorem interruption_resets:
  assumes ctx: "audioContextRef s \<noteq> None"
    and next_chunk: "payload \<noteq> []" "dec payload = Some d"
  shows "fst (onmessage dec t0 now interrupt_message s) = Resolved \<and>
         sourcesRef (snd (onmessage dec t0 now interrupt_message s)) = {} \<and>
         nextStartTimeRef (snd (onmessage dec t0 now interrupt_message s)) = now \<and>
         modelState (snd (onmessage dec t0 now interrupt_message s)) = Listening \<and>
         length (sources_of (snd (onmessage dec t0 now interrupt_message s))) = length (sources_of s) \<and>
         (\<forall>h<length (sources_of s).
            sources_of (snd (onmessage dec t0 now interrupt_message s)) ! h =
              (if h \<in> sourcesRef s then (sources_of s ! h)\<lparr>stopped := True\<rparr> else sources_of s ! h)) \<and>
         (sourcesRef s = {} \<longrightarrow>
            sources_of (snd (onmessage dec t0 now interrupt_message s)) = sources_of s) \<and>
         scheduled dec [(now, payload)] (snd (onmessage dec t0 now interrupt_message s)) =
           [\<lparr>start_at = now, buf_duration = d, stopped = False\<rparr>]"
proof -
  from ctx obtain c where c: "audioContextRef s = Some c" by auto
  let ?s' = "snd (onmessage dec t0 now interrupt_message s)"
  have s': "?s' = s\<lparr>audioContextRef := Some (stop_sources (sourcesRef s) c), sourcesRef := {},
                    nextStartTimeRef := now, modelState := Listening\<rparr>"
    using c by (simp add: onmessage_def handle_interrupted_def interrupt_message_def Let_def)
  have res: "fst (onmessage dec t0 now interrupt_message s) = Resolved"
    by (simp add: onmessage_def interrupt_message_def)
  have src: "sources_of ?s' = buffer_sources (stop_sources (sourcesRef s) c)"
    "sources_of s = buffer_sources c"
    using c by (simp_all add: s' sources_of_def)
  have ctx': "audioContextRef ?s' = Some (stop_sources (sourcesRef s) c)" by (simp add: s')
  have nxt: "scheduled dec [(now, payload)] ?s' = [\<lparr>start_at = now, buf_duration = d, stopped = False\<rparr>]"
    using good_chunk_sources(1)[of ?s' "stop_sources (sourcesRef s) c" payload dec d now now] ctx' next_chunk
    by (simp add: scheduled_def) (simp add: s')
  show ?thesis
    using res nxt by (simp add: src stop_sources_length stop_sources_nth stop_sources_empty) (simp add: s')
qed

text \<open>
  With two sources active, an interruption at clock reading 3 stops both, empties the set
  and puts the cursor at 3, where the next chunk starts. With no source active, an
  interruption at clock reading 5 stops nothing and puts the cursor at 5.
\<close>

theorem interruption_resets_witness:
  "sourcesRef two_playing = {0, 1} \<and>
   map stopped (sources_of two_playing) = [False, False] \<and>
   map stopped (sources_of (snd (onmessage demo_decoder 3 3 interrupt_message two_playing))) = [True, True] \<and>
   sourcesRef (snd (onmessage demo_decoder 3 3 interrupt_message two_playing)) = {} \<and>
   nextStartTimeRef (snd (onmessage demo_decoder 3 3 interrupt_message two_playing)) = 3 \<and>
   scheduled demo_decoder [(3, ''AAAA'')] (snd (onmessage demo_decoder 3 3 interrupt_message two_playing)) =
     [\<lparr>start_at = 3, buf_duration = 2, stopped = False\<rparr>] \<and>
   sourcesRef open_session = {} \<and>
   fst (onmessage demo_decoder 5 5 interrupt_message open_session) = Resolved \<and>
   sources_of (snd (onmessage demo_decoder 5 5 interrupt_message open_session)) = sources_of open_session \<and>
   nextStartTimeRef (snd (onmessage demo_decoder 5 5 interrupt_message open_session)) = 5"
proof -
  have h1: "audioContextRef two_playing \<noteq> None" by (simp add: two_playing_eq)
  have h2: "''AAAA'' \<noteq> []" "demo_decoder ''AAAA'' = Some 2" by (simp_all add: demo_decoder_def)
  have src: "sources_of two_playing =
        [\<lparr>start_at = 0, buf_duration = 2, stopped = False\<rparr>,
          \<lparr>start_at = 2, buf_duration = 2, stopped = False\<rparr>]"
    "sourcesRef two_playing = {0, 1}"
    by (simp_all add: two_playing_eq sources_of_def)
  from interruption_resets[where s = two_playing and payload = "''AAAA''" and dec = demo_decoder
      and d = 2 and ?t0.0 = 3 and now = 3, OF h1 h2]
  have r: "sourcesRef (snd (onmessage demo_decoder 3 3 interrupt_message two_playing)) = {}"
    "nextStartTimeRef (snd (onmessage demo_decoder 3 3 interrupt_message two_playing)) = 3"
    "length (sources_of (snd (onmessage demo_decoder 3 3 interrupt_message two_playing))) = 2"
    "\<forall>h<2. sources_of (snd (onmessage demo_decoder 3 3 interrupt_message two_playing)) ! h =
              (if h \<in> {0, 1} then (sources_of two_playing ! h)\<lparr>stopped := True\<rparr> else sources_of two_playing ! h)"
    "scheduled demo_decoder [(3, ''AAAA'')] (snd (onmessage demo_decoder 3 3 interrupt_message two_playing)) =
       [\<lparr>start_at = 3, buf_duration = 2, stopped = False\<rparr>]"
    by (simp_all add: src)
  from r(4) have "stopped (sources_of (snd (onmessage demo_decoder 3 3 interrupt_message two_playing)) ! 0)"
    "stopped (sources_of (snd (onmessage demo_decoder 3 3 interrupt_message two_playing)) ! 1)"
    by (simp_all add: src)
  with r(3) have st: "map stopped (sources_of (snd (onmessage demo_decoder 3 3 interrupt_message two_playing))) = [True, True]"
    by (cases "sources_of (snd (onmessage demo_decoder 3 3 interrupt_message two_playing))" rule: list.exhaust)
       (auto simp: length_Suc_conv)
  have i1: "audioContextRef open_session \<noteq> None" "sourcesRef open_session = {}"
    by (simp_all add: session_defs)
  from interruption_resets[where s = open_session and payload = "''AAAA''" and dec = demo_decoder
      and d = 2 and ?t0.0 = 5 and now = 5, OF i1(1) h2] i1(2)
  have idle: "fst (onmessage demo_decoder 5 5 interrupt_message open_session) = Resolved"
    "sources_of (snd (onmessage demo_decoder 5 5 interrupt_message open_session)) = sources_of open_session"
    "nextStartTimeRef (snd (onmessage demo_decoder 5 5 interrupt_message open_session)) = 5"
    by simp_all
  from st r src idle i1(2) show ?thesis by simp
qed

subsection \<open>The displayed state\<close>

text \<open>
  While every handler resolves, the displayed state follows the set of sources: this is
  kept by \<^verbatim>\<open>onopen\<close>, by \<^verbatim>\<open>onended\<close> and by every message whose handler resolves.
\<close>

lemma state_derived_onopen: "state_derived (onopen s) \<longleftrightarrow> sourcesRef s = {}"
  by (simp add: state_derived_def onopen_def)

lemma state_derived_onended: "state_derived s \<Longrightarrow> state_derived (onended h s)"
  by (auto simp: state_derived_def onended_def Let_def)

lemma state_derived_onmessage:
  assumes "state_derived s" "audioContextRef s \<noteq> None"
    "fst (onmessage dec t1 t2 m s) = Resolved"
  shows "state_derived (snd (onmessage dec t1 t2 m s))"
  using assms
  by (auto simp: state_derived_def onmessage_def handle_audio_def schedule_source_def
       handle_interrupted_def Let_def split: option.splits if_splits)

text \<open>
  Claim C3 (state derivation). The handler sets the state to speaking before it decodes.
  When the payload does not decode, the exception leaves the handler: the state stays
  speaking although no source is registered, so the relation between state and set of
  sources is lost. Evaluated on the session right after \<^verbatim>\<open>onopen\<close>, with a payload that
  the decoder rejects.
\<close>

theorem failed_decode_leaves_speaking:
  "state_derived open_session \<and>
   fst (onmessage demo_decoder 1 1 (chunk_message ''%'') open_session) = Rejected \<and>
   modelState (snd (onmessage demo_decoder 1 1 (chunk_message ''%'') open_session)) = Speaking \<and>
   sourcesRef (snd (onmessage demo_decoder 1 1 (chunk_message ''%'') open_session)) = {} \<and>
   \<not> state_derived (snd (onmessage demo_decoder 1 1 (chunk_message ''%'') open_session))"
  by (simp add: session_defs state_derived_def)

subsection \<open>Chunks that do not decode\<close>

text \<open>
  Claim C9 as stated fails where it says that the cursor is not advanced: the cursor is
  raised to the clock reading before the payload is decoded. After \<^verbatim>\<open>onopen\<close> the cursor
  is 0; a chunk that does not decode, arriving at clock reading 5, leaves it at 5.
\<close>

theorem failed_decode_moves_cursor:
  "fst (onmessage demo_decoder 5 5 (chunk_message ''%'') open_session) = Rejected \<and>
   nextStartTimeRef (snd (onmessage demo_decoder 5 5 (chunk_message ''%'') open_session))
     \<noteq> nextStartTimeRef open_session"
  by (simp add: session_defs)

text \<open>
  Claim C9 (decode failure), amended. When the payload of a chunk does not decode, the
  handler's promise rejects; no source is created, the sources created so far and the
  set \<^verbatim>\<open>sourcesRef\<close> are unchanged, and the cursor is not advanced by any duration: it
  becomes the maximum of its old value and the clock reading at arrival. The session
  continues: a later message that carries audio, arriving at a clock reading that is not
  earlier, is handled with the same outcome and the same resulting state as if the failed
  chunk had never arrived.
\<close>

theorem decode_failure_isolated:
  assumes ctx: "audioContextRef s \<noteq> None"
    and bad: "payload \<noteq> []" "dec payload = None"
    and later: "audioData m = Some q" "q \<noteq> []" "now \<le> t1"
  shows "fst (onmessage dec now t2 \<lparr>audioData = Some payload, interrupted = b\<rparr> s) = Rejected \<and>
         audioContextRef (snd (onmessage dec now t2 \<lparr>audioData = Some payload, interrupted = b\<rparr> s))
           = audioContextRef s \<and>
         sourcesRef (snd (onmessage dec now t2 \<lparr>audioData = Some payload, interrupted = b\<rparr> s))
           = sourcesRef s \<and>
         nextStartTimeRef (snd (onmessage dec now t2 \<lparr>audioData = Some payload, interrupted = b\<rparr> s))
           = max (nextStartTimeRef s) now \<and>
         onmessage dec t1 t3 m (snd (onmessage dec now t2 \<lparr>audioData = Some payload, interrupted = b\<rparr> s))
           = onmessage dec t1 t3 m s"
proof -
  have mx: "max (max x now) t1 = max x t1" for x :: real
    using later(3) by simp
  show ?thesis
    using ctx bad later(1,2)
    by (auto simp: onmessage_def handle_audio_def schedule_source_def Let_def mx split: option.splits)
qed

text \<open>
  With two sources active and the cursor at 4, a chunk that does not decode changes neither;
  the next chunk is handled as it would have been without it.
\<close>

theorem decode_failure_isolated_witness:
  "fst (onmessage demo_decoder 1 1 (chunk_message ''%'') two_playing) = Rejected \<and>
   sources_of (snd (onmessage demo_decoder 1 1 (chunk_message ''%'') two_playing)) = sources_of two_playing \<and>
   sourcesRef (snd (onmessage demo_decoder 1 1 (chunk_message ''%'') two_playing)) = {0, 1} \<and>
   nextStartTimeRef (snd (onmessage demo_decoder 1 1 (chunk_message ''%'') two_playing)) = 4 \<and>
   onmessage demo_decoder 3 3 (chunk_message ''AAAA'')
       (snd (onmessage demo_decoder 1 1 (chunk_message ''%'') two_playing))
     = onmessage demo_decoder 3 3 (chunk_message ''AAAA'') two_playing"
proof -
  have h1: "audioContextRef two_playing \<noteq> None" by (simp add: two_playing_eq)
  have h2: "''%'' \<noteq> []" "demo_decoder ''%'' = None" by (simp_all add: demo_decoder_def)
  have h3: "audioData (chunk_message ''AAAA'') = Some ''AAAA''" "''AAAA'' \<noteq> []" "(1::real) \<le> 3"
    by (simp_all add: chunk_message_def)
  from decode_failure_isolated[where s = two_playing and payload = "''%''" and dec = demo_decoder
      and m = "chunk_message ''AAAA''" and q = "''AAAA''" and now = 1 and ?t1.0 = 3 and ?t2.0 = 1
      and ?t3.0 = 3 and b = False, OF h1 h2 h3]
  show ?thesis
    by (simp add: chunk_message_def sources_of_def) (simp add: two_playing_eq)
qed

section \<open>Properties of the music engine\<close>

subsection \<open>What play builds\<close>

lemmas ctx_ops = add_node_def connect_def start_def

lemma ambient_pad_shape:
  "ambient_pad env t c =
     (length (nodes c), length (nodes c) + 4,
      c\<lparr>nodes := nodes c @
           [BufferSource (noise_buffer (random env) (sampleRate c * 5)) True None False,
            BiquadFilter Lowpass 400 1,
            Oscillator Sine 0.1 (Some t) False,
            Gain 200 [],
            Gain 0.15 []],
         connections := connections c @
           [(length (nodes c) + 2, 0, NodeInput (length (nodes c) + 3) 0),
            (length (nodes c) + 3, 0, ParamInput (length (nodes c) + 1) FrequencyParam),
            (length (nodes c), 0, NodeInput (length (nodes c) + 1) 0),
            (length (nodes c) + 1, 0, NodeInput (length (nodes c) + 4) 0)]\<rparr>)"
  by (simp add: ambient_pad_def ctx_ops Let_def)

lemma binaural_beats_shape:
  "binaural_beats cfg t master c =
     (length (nodes c) + 1, length (nodes c) + 2,
      c\<lparr>nodes := nodes c @
           [ChannelMerger 2,
            Oscillator Sine (baseFreq cfg) (Some t) False,
            Oscillator Sine (baseFreq cfg + binauralFreq cfg) (Some t) False,
            Gain 0.1 []],
         connections := connections c @
           [(length (nodes c) + 1, 0, NodeInput (length (nodes c)) 0),
            (length (nodes c) + 2, 0, NodeInput (length (nodes c)) 1),
            (length (nodes c), 0, NodeInput (length (nodes c) + 3) 0),
            (length (nodes c) + 3, 0, NodeInput master 0)]\<rparr>)"
  by (simp add: binaural_beats_def ctx_ops Let_def list_update_append nth_append)

lemma isochronic_tones_shape:
  "isochronic_tones cfg t master c =
     (length (nodes c), length (nodes c) + 1,
      c\<lparr>nodes := nodes c @
           [Oscillator Sine 150 (Some t) False,
            Oscillator Square (binauralFreq cfg) (Some t) False,
            Gain 0 [],
            Gain 1 []],
         connections := connections c @
           [(length (nodes c) + 1, 0, NodeInput (length (nodes c) + 3) 0),
            (length (nodes c) + 3, 0, ParamInput (length (nodes c) + 2) GainParam),
            (length (nodes c), 0, NodeInput (length (nodes c) + 2) 0),
            (length (nodes c) + 2, 0, NodeInput master 0),
            (length (nodes c) + 1, 0, ParamInput (length (nodes c) + 2) GainParam)]\<rparr>)"
  by (simp add: isochronic_tones_def ctx_ops Let_def list_update_append nth_append)

lemma build_layers_shape:
  assumes "ctx e = Some c" "masterGain e = Some master"
  shows "build_layers cfg env e =
     (Normal,
      e\<lparr>ambientSource := Some (length (nodes c)),
        binauralLeft := Some (length (nodes c) + 6),
        binauralRight := Some (length (nodes c) + 7),
        isochronicOsc := (if isochronic cfg then Some (length (nodes c) + 9) else isochronicOsc e),
        isochronicLFO := (if isochronic cfg then Some (length (nodes c) + 10) else isochronicLFO e),
        ctx := Some (c\<lparr>nodes := nodes c @ played_nodes cfg env c,
                       connections := connections c @
                          played_connections cfg master (length (nodes c))\<rparr>)\<rparr>)"
  using assms
  by (cases e) (simp add: build_layers_def ambient_pad_shape binaural_beats_shape isochronic_tones_shape
      start_def connect_def played_nodes_def played_connections_def list_update_append nth_append Let_def)

subsection \<open>stop and the first lines of play\<close>

lemma stop_ref_Some:
  "stop_ref r (Some c) = Some (c\<lparr>nodes := (case r of None \<Rightarrow> nodes c
        | Some i \<Rightarrow> (nodes c)[i := stop_node (nodes c ! i)])\<rparr>)"
  by (simp add: stop_ref_def split: option.split)

lemma stop_ref_None [simp]: "stop_ref r None = None"
  by (simp add: stop_ref_def split: option.split)

lemma stop_ctx:
  assumes "ctx e = Some c"
  shows "\<exists>c'. ctx (stop e) = Some c' \<and> length (nodes c') = length (nodes c) \<and>
           connections c' = connections c \<and> sampleRate c' = sampleRate c \<and> ctx_state c' = ctx_state c"
  using assms by (simp add: stop_def stop_ref_Some split: option.split)

lemma stop_fields [simp]:
  "masterGain (stop e) = masterGain e" "ambientSource (stop e) = None"
  "binauralLeft (stop e) = None" "binauralRight (stop e) = None"
  "isochronicOsc (stop e) = None" "isochronicLFO (stop e) = None" "isPlaying (stop e) = False"
  by (simp_all add: stop_def)

lemma stop_ctx_None [simp]: "ctx e = None \<Longrightarrow> ctx (stop e) = None"
  by (simp add: stop_def)

lemma stop_node_fixed: "\<forall>n\<in>set xs. stop_node n = n \<Longrightarrow> xs[i := stop_node (xs ! i)] = xs"
  by (cases "i < length xs") (simp_all add: list_update_same_conv list_update_beyond)

lemma stop_ref_fixed:
  "\<forall>n\<in>set (nodes c). stop_node n = n \<Longrightarrow> stop_ref r (Some c) = Some c"
  by (simp add: stop_ref_Some stop_node_fixed split: option.split)

lemma stop_idle:
  assumes "ambientSource e = None" "binauralLeft e = None" "binauralRight e = None"
    "isochronicOsc e = None" "isochronicLFO e = None" "\<not> isPlaying e"
  shows "stop e = e"
  using assms by (cases e) (simp add: stop_def stop_ref_def)

lemma stop_unheld:
  assumes "ctx e = Some c" "i \<notin> held_nodes e"
  shows "\<exists>c'. ctx (stop e) = Some c' \<and> nodes c' ! i = nodes c ! i"
  using assms
  by (auto simp: stop_def stop_ref_Some held_nodes_def split: option.split)

lemma prepare_fields [simp]:
  "ambientSource (prepare env e) = None"
  "binauralLeft (prepare env e) = None" "binauralRight (prepare env e) = None"
  "isochronicOsc (prepare env e) = None" "isochronicLFO (prepare env e) = None"
  "isPlaying (prepare env e) = True"
  by (simp_all add: prepare_def Let_def)

lemma prepare_existing:
  assumes "ctx e = Some c"
  shows "masterGain (prepare env e) = masterGain e"
    and "\<exists>c'. ctx (prepare env e) = Some c' \<and> length (nodes c') = length (nodes c) \<and>
           connections c' = connections c \<and> sampleRate c' = sampleRate c"
proof -
  show "masterGain (prepare env e) = masterGain e"
    using assms by (simp add: prepare_def Let_def)
  have "ctx (e\<lparr>ctx := map_option resume (ctx e)\<rparr>) = Some (resume c)" using assms by simp
  from stop_ctx[OF this] show "\<exists>c'. ctx (prepare env e) = Some c' \<and> length (nodes c') = length (nodes c) \<and>
           connections c' = connections c \<and> sampleRate c' = sampleRate c"
    using assms by (auto simp: prepare_def Let_def resume_def)
qed

lemma prepare_fresh:
  assumes "ctx e = None"
  shows "masterGain (prepare env e) = Some 1"
    and "ctx (prepare env e) =
           Some \<lparr>nodes = [Destination, Gain 0.5 []], connections = [(1, 0, NodeInput 0 0)],
                 ctx_state = Running, sampleRate = hw_sampleRate env\<rparr>"
proof -
  let ?c = "\<lparr>nodes = [Destination, Gain 0.5 []], connections = [(1, 0, NodeInput 0 0)],
                 ctx_state = Running, sampleRate = hw_sampleRate env\<rparr>"
  have fixed: "\<forall>n\<in>set (nodes ?c). stop_node n = n" by simp
  have i: "ctx (init env e) = Some (?c\<lparr>ctx_state := created_state env\<rparr>)" "masterGain (init env e) = Some 1"
    by (simp_all add: init_def add_node_def connect_def Let_def)
  show "masterGain (prepare env e) = Some 1"
    using assms i by (simp add: prepare_def Let_def)
  have r: "resume (?c\<lparr>ctx_state := created_state env\<rparr>) = ?c"
    by (cases "created_state env") (simp_all add: resume_def)
  show "ctx (prepare env e) = Some ?c"
    using assms i r stop_ref_fixed[OF fixed]
    by (simp add: prepare_def Let_def stop_def)
qed

lemma prepare_fresh_engine:
  assumes "ctx e = None"
  shows "prepare env e =
     e\<lparr>ctx := Some \<lparr>nodes = [Destination, Gain 0.5 []], connections = [(1, 0, NodeInput 0 0)],
                      ctx_state = Running, sampleRate = hw_sampleRate env\<rparr>,
       masterGain := Some 1, ambientSource := None, binauralLeft := None, binauralRight := None,
       isochronicOsc := None, isochronicLFO := None, isPlaying := True\<rparr>"
proof -
  let ?c = "\<lparr>nodes = [Destination, Gain 0.5 []], connections = [(1, 0, NodeInput 0 0)],
                 ctx_state = Running, sampleRate = hw_sampleRate env\<rparr>"
  have fixed: "\<forall>n\<in>set (nodes ?c). stop_node n = n" by simp
  have i: "init env e = e\<lparr>ctx := Some (?c\<lparr>ctx_state := created_state env\<rparr>), masterGain := Some 1\<rparr>"
    by (simp add: init_def add_node_def connect_def Let_def)
  have r: "resume (?c\<lparr>ctx_state := created_state env\<rparr>) = ?c"
    by (cases "created_state env") (simp_all add: resume_def)
  show ?thesis
    using assms r by (simp add: prepare_def Let_def i stop_def stop_ref_fixed)
qed

lemma prepare_wf:
  assumes "wf_engine e"
  shows "\<exists>c0 master. ctx (prepare env e) = Some c0 \<and> masterGain (prepare env e) = Some master \<and>
           master < length (nodes c0) \<and>
           (\<forall>(src, out, d) \<in> set (connections c0).
              src < length (nodes c0) \<and> dest_node d < length (nodes c0))"
proof (cases "ctx e")
  case None
  from prepare_fresh[OF None, of env] show ?thesis by simp
next
  case (Some c)
  with assms obtain master where m: "masterGain e = Some master" "master < length (nodes c)"
    and conns: "\<forall>(src, out, d) \<in> set (connections c). src < length (nodes c) \<and> dest_node d < length (nodes c)"
    by (auto simp: wf_engine_def split: option.splits)
  from prepare_existing[OF Some, of env] m conns show ?thesis by auto
qed

lemma play_shape:
  assumes "ctx (prepare env e) = Some c0" "masterGain (prepare env e) = Some master"
  shows "play cfg env e =
     (Normal,
      (prepare env e)\<lparr>ambientSource := Some (length (nodes c0)),
        binauralLeft := Some (length (nodes c0) + 6),
        binauralRight := Some (length (nodes c0) + 7),
        isochronicOsc := (if isochronic cfg then Some (length (nodes c0) + 9) else None),
        isochronicLFO := (if isochronic cfg then Some (length (nodes c0) + 10) else None),
        ctx := Some (c0\<lparr>nodes := nodes c0 @ played_nodes cfg env c0,
                       connections := connections c0 @
                          played_connections cfg master (length (nodes c0))\<rparr>)\<rparr>)"
  unfolding play_def build_layers_shape[OF assms] by simp

lemma play_fresh:
  assumes "ctx e = None"
  shows "fst (play cfg env e) = Normal"
    and "masterGain (snd (play cfg env e)) = Some 1"
    and "isPlaying (snd (play cfg env e))"
    and "\<exists>c. ctx (snd (play cfg env e)) = Some c \<and> take 2 (nodes c) = [Destination, Gain 0.5 []]"
    and "master_level (snd (play cfg env e)) = Some 0.5"
proof -
  note p = prepare_fresh[OF assms, of env]
  note shape = play_shape[OF p(2) p(1), of cfg]
  show "fst (play cfg env e) = Normal" unfolding shape by simp
  show "masterGain (snd (play cfg env e)) = Some 1" unfolding shape by (simp add: p(1))
  show "isPlaying (snd (play cfg env e))" unfolding shape by simp
  show "\<exists>c. ctx (snd (play cfg env e)) = Some c \<and> take 2 (nodes c) = [Destination, Gain 0.5 []]"
    unfolding shape by simp
  show "master_level (snd (play cfg env e)) = Some 0.5"
    unfolding shape by (simp add: master_level_def p(1))
qed

lemma destroy_eq:
  "destroy e = (stop e)\<lparr>ctx := None\<rparr>"
proof (cases "ctx (stop e)")
  case None
  then have "(stop e)\<lparr>ctx := None\<rparr> = stop e" by (cases "stop e") simp
  with None show ?thesis by (simp add: destroy_def Let_def)
next
  case (Some c)
  then show ?thesis by (simp add: destroy_def Let_def)
qed

lemma destroy_props:
  "ctx (destroy e) = None" "stop (destroy e) = destroy e"
proof -
  show c: "ctx (destroy e) = None" by (simp add: destroy_eq)
  show "stop (destroy e) = destroy e"
    by (rule stop_idle) (simp_all add: destroy_eq)
qed

subsection \<open>The references stay valid\<close>

lemma wf_new: "wf_engine new_engine"
  by (simp add: wf_engine_def new_engine_def)

lemma wf_stop: "wf_engine e \<Longrightarrow> wf_engine (stop e)"
proof (cases "ctx e")
  case None
  then show ?thesis by (simp add: wf_engine_def)
next
  case (Some c)
  assume "wf_engine e"
  with Some stop_ctx[OF Some] show ?thesis by (auto simp: wf_engine_def split: option.splits)
qed

lemma wf_destroy: "wf_engine (destroy e)"
  by (simp add: wf_engine_def destroy_eq)

lemma wf_setVolume: "wf_engine e \<Longrightarrow> wf_engine (snd (setVolume v now e))"
  by (auto simp: wf_engine_def setVolume_def split: option.splits)

lemma wf_play:
  assumes "wf_engine e"
  shows "fst (play cfg env e) = Normal" and "wf_engine (snd (play cfg env e))"
proof -
  from prepare_wf[OF assms, of env] obtain c0 master where
    p: "ctx (prepare env e) = Some c0" "masterGain (prepare env e) = Some master"
    and m: "master < length (nodes c0)"
    and old: "\<forall>(src, out, d) \<in> set (connections c0).
              src < length (nodes c0) \<and> dest_node d < length (nodes c0)"
    by blast
  note shape = play_shape[OF p, of cfg]
  show "fst (play cfg env e) = Normal" unfolding shape by simp
  show "wf_engine (snd (play cfg env e))"
    unfolding shape using m old
    by (auto simp: wf_engine_def p played_nodes_def played_connections_def)
qed

subsection \<open>The binaural layer\<close>

lemma old_outputs:
  assumes "\<forall>(src, out, d) \<in> set cs. src < k \<and> dest_node d < k"
  shows "filter (\<lambda>(src, out, d). src = k + j) cs = []"
    and "filter (\<lambda>(src, out, d). d = NodeInput (k + j) inp) cs = []"
  using assms by (auto simp: filter_empty_conv)

text \<open>
  Claim C7 (binaural channel separation). For every configuration, \<^verbatim>\<open>play\<close> on an
  engine whose references are valid completes and leaves two sine oscillators: the left one
  at \<open>baseFreq\<close>, whose only connection goes to input 0 of the channel merger, and the
  right one at \<open>baseFreq + binauralFreq\<close>, whose only connection goes to input 1. Input 0
  of the merger receives nothing but the left oscillator and input 1 nothing but the right
  one; the merger's only output goes to the gain node of value 0.1, so the channels are
  separate where they are merged, before the attenuation.
\<close>

theorem binaural_channel_separation:
  assumes "wf_engine e"
  shows "fst (play cfg env e) = Normal \<and>
         (\<exists>c l r m g.
            ctx (snd (play cfg env e)) = Some c \<and>
            binauralLeft (snd (play cfg env e)) = Some l \<and>
            binauralRight (snd (play cfg env e)) = Some r \<and>
            nodes c ! l = Oscillator Sine (baseFreq cfg) (Some (currentTime env)) False \<and>
            nodes c ! r = Oscillator Sine (baseFreq cfg + binauralFreq cfg) (Some (currentTime env)) False \<and>
            nodes c ! m = ChannelMerger 2 \<and>
            outputs_of l c = [(l, 0, NodeInput m 0)] \<and>
            outputs_of r c = [(r, 0, NodeInput m 1)] \<and>
            inputs_of m 0 c = [(l, 0, NodeInput m 0)] \<and>
            inputs_of m 1 c = [(r, 0, NodeInput m 1)] \<and>
            outputs_of m c = [(m, 0, NodeInput g 0)] \<and>
            nodes c ! g = Gain 0.1 [])"
proof -
  from prepare_wf[OF assms, of env] obtain c0 master where
    p: "ctx (prepare env e) = Some c0" "masterGain (prepare env e) = Some master"
    and m: "master < length (nodes c0)"
    and old: "\<forall>(src, out, d) \<in> set (connections c0).
              src < length (nodes c0) \<and> dest_node d < length (nodes c0)"
    by blast
  let ?k = "length (nodes c0)"
  let ?c = "c0\<lparr>nodes := nodes c0 @ played_nodes cfg env c0,
               connections := connections c0 @ played_connections cfg master ?k\<rparr>"
  note shape = play_shape[OF p, of cfg]
  have nth: "nodes ?c ! (?k + 6) = Oscillator Sine (baseFreq cfg) (Some (currentTime env)) False"
    "nodes ?c ! (?k + 7) = Oscillator Sine (baseFreq cfg + binauralFreq cfg) (Some (currentTime env)) False"
    "nodes ?c ! (?k + 5) = ChannelMerger 2"
    "nodes ?c ! (?k + 8) = Gain 0.1 []"
    by (simp_all add: played_nodes_def nth_append)
  have conns: "outputs_of (?k + 6) ?c = [(?k + 6, 0, NodeInput (?k + 5) 0)]"
    "outputs_of (?k + 7) ?c = [(?k + 7, 0, NodeInput (?k + 5) 1)]"
    "inputs_of (?k + 5) 0 ?c = [(?k + 6, 0, NodeInput (?k + 5) 0)]"
    "inputs_of (?k + 5) 1 ?c = [(?k + 7, 0, NodeInput (?k + 5) 1)]"
    "outputs_of (?k + 5) ?c = [(?k + 5, 0, NodeInput (?k + 8) 0)]"
    using m by (simp_all add: outputs_of_def inputs_of_def old_outputs[OF old] played_connections_def)
  show ?thesis
    unfolding shape using nth conns by simp
qed

text \<open>
  On a new engine, with base frequency 200 and offset 6, the oscillators are at 200 and 206.
\<close>

theorem binaural_channel_separation_witness:
  "wf_engine new_engine \<and>
   fst (play demo_config (demo_env 0) new_engine) = Normal \<and>
   (\<exists>c l r m g.
      ctx (snd (play demo_config (demo_env 0) new_engine)) = Some c \<and>
      binauralLeft (snd (play demo_config (demo_env 0) new_engine)) = Some l \<and>
      binauralRight (snd (play demo_config (demo_env 0) new_engine)) = Some r \<and>
      nodes c ! l = Oscillator Sine 200 (Some 0) False \<and>
      nodes c ! r = Oscillator Sine 206 (Some 0) False \<and>
      nodes c ! m = ChannelMerger 2 \<and>
      outputs_of l c = [(l, 0, NodeInput m 0)] \<and>
      outputs_of r c = [(r, 0, NodeInput m 1)] \<and>
      inputs_of m 0 c = [(l, 0, NodeInput m 0)] \<and>
      inputs_of m 1 c = [(r, 0, NodeInput m 1)] \<and>
      outputs_of m c = [(m, 0, NodeInput g 0)] \<and>
      nodes c ! g = Gain 0.1 [])"
proof -
  have f: "baseFreq demo_config = 200" "binauralFreq demo_config = 6"
    "currentTime (demo_env 0) = 0"
    by (simp_all add: demo_config_def demo_env_def)
  from binaural_channel_separation[OF wf_new, of demo_config "demo_env 0"] wf_new
  show ?thesis by (simp add: f)
qed

subsection \<open>Repeated play\<close>

lemma played_once_eq:
  "played_once =
     \<lparr>ctx = Some
        \<lparr>nodes =
           [Destination, Gain 0.5 [],
            BufferSource (noise_buffer demo_random 220500) True (Some 0) False,
            BiquadFilter Lowpass 400 1,
            Oscillator Sine 0.1 (Some 0) False, Gain 200 [], Gain 0.15 [],
            ChannelMerger 2,
            Oscillator Sine 200 (Some 0) False,
            Oscillator Sine 206 (Some 0) False, Gain 0.1 []],
         connections =
           [(1, 0, NodeInput 0 0),
            (4, 0, NodeInput 5 0), (5, 0, ParamInput 3 FrequencyParam),
            (2, 0, NodeInput 3 0), (3, 0, NodeInput 6 0), (6, 0, NodeInput 1 0),
            (8, 0, NodeInput 7 0), (9, 0, NodeInput 7 1), (7, 0, NodeInput 10 0),
            (10, 0, NodeInput 1 0)],
         ctx_state = Running, sampleRate = 44100\<rparr>,
      masterGain = Some 1, binauralLeft = Some 8, binauralRight = Some 9,
      isochronicOsc = None, isochronicLFO = None, ambientSource = Some 2, isPlaying = True\<rparr>"
proof -
  have c: "ctx new_engine = None" by (simp add: new_engine_def)
  show ?thesis
    unfolding played_once_def play_shape[OF prepare_fresh(2)[OF c] prepare_fresh(1)[OF c]]
    by (simp add: played_nodes_def played_connections_def demo_config_def demo_env_def
        prepare_fresh_engine new_engine_def)
qed

lemma list_update_Cons_numeral:
  "(x # xs)[numeral k := y] = x # xs[pred_numeral k := y]"
  by (simp add: numeral_eq_Suc)

lemma prepare_played_once:
  "prepare (demo_env 10) played_once =
   \<lparr>ctx = Some
        \<lparr>nodes =
           [Destination, Gain 0.5 [],
            BufferSource (noise_buffer demo_random 220500) True (Some 0) True,
            BiquadFilter Lowpass 400 1,
            Oscillator Sine 0.1 (Some 0) False, Gain 200 [], Gain 0.15 [],
            ChannelMerger 2,
            Oscillator Sine 200 (Some 0) True,
            Oscillator Sine 206 (Some 0) True, Gain 0.1 []],
         connections =
           [(1, 0, NodeInput 0 0),
            (4, 0, NodeInput 5 0), (5, 0, ParamInput 3 FrequencyParam),
            (2, 0, NodeInput 3 0), (3, 0, NodeInput 6 0), (6, 0, NodeInput 1 0),
            (8, 0, NodeInput 7 0), (9, 0, NodeInput 7 1), (7, 0, NodeInput 10 0),
            (10, 0, NodeInput 1 0)],
         ctx_state = Running, sampleRate = 44100\<rparr>,
      masterGain = Some 1, binauralLeft = None, binauralRight = None,
      isochronicOsc = None, isochronicLFO = None, ambientSource = None, isPlaying = True\<rparr>"
  by (simp add: prepare_def Let_def played_once_eq stop_def stop_ref_def resume_def list_update_Cons_numeral)

text \<open>
  \<^verbatim>\<open>stop\<close> stops the five sources the engine holds. The oscillator that modulates the
  filter of the ambient pad is started by \<^verbatim>\<open>play\<close> but held in a local variable only, so
  after \<^verbatim>\<open>play\<close> and \<^verbatim>\<open>stop\<close> it is still running.
\<close>

lemma filter_lfo_survives_stop:
  assumes "wf_engine e"
  shows "\<exists>c i. ctx (stop (snd (play cfg env e))) = Some c \<and>
           held_nodes (stop (snd (play cfg env e))) = {} \<and>
           nodes c ! i = Oscillator Sine 0.1 (Some (currentTime env)) False \<and>
           running (nodes c ! i)"
proof -
  from prepare_wf[OF assms, of env] obtain c0 master where
    p: "ctx (prepare env e) = Some c0" "masterGain (prepare env e) = Some master"
    by blast
  let ?k = "length (nodes c0)"
  let ?e' = "snd (play cfg env e)"
  let ?c = "c0\<lparr>nodes := nodes c0 @ played_nodes cfg env c0,
               connections := connections c0 @ played_connections cfg master ?k\<rparr>"
  note shape = play_shape[OF p, of cfg]
  have c: "ctx ?e' = Some ?c" unfolding shape by simp
  have unheld: "?k + 2 \<notin> held_nodes ?e'" unfolding shape by (simp add: held_nodes_def)
  have lfo: "nodes ?c ! (?k + 2) = Oscillator Sine 0.1 (Some (currentTime env)) False"
    by (simp add: played_nodes_def nth_append)
  from stop_unheld[OF c unheld] obtain c' where
    c': "ctx (stop ?e') = Some c'" "nodes c' ! (?k + 2) = nodes ?c ! (?k + 2)" by blast
  have "held_nodes (stop ?e') = {}" by (simp add: held_nodes_def)
  with c' lfo show ?thesis by (auto simp: running_def)
qed

text \<open>
  Claim C4 (repeated play). The second \<^verbatim>\<open>play\<close> does call \<^verbatim>\<open>stop\<close> first, and the
  engine then holds one ambient source (node 11) and one binaural pair (nodes 17 and 18).
  But the running sources after the second call are nodes 4, 11, 13, 17 and 18: node 4 is
  the filter oscillator started by the first call, node 13 the one started by the second.
  Evaluated on a new engine with the fallback configuration.
\<close>

theorem repeated_play_leaves_oscillator_running:
  "running_nodes played_twice = [4, 11, 13, 17, 18] \<and> held_nodes played_twice = {11, 17, 18}"
proof -
  let ?c = "\<lparr>nodes =
           [Destination, Gain 0.5 [],
            BufferSource (noise_buffer demo_random 220500) True (Some 0) True,
            BiquadFilter Lowpass 400 1,
            Oscillator Sine 0.1 (Some 0) False, Gain 200 [], Gain 0.15 [],
            ChannelMerger 2,
            Oscillator Sine 200 (Some 0) True,
            Oscillator Sine 206 (Some 0) True, Gain 0.1 []],
         connections =
           [(1, 0, NodeInput 0 0),
            (4, 0, NodeInput 5 0), (5, 0, ParamInput 3 FrequencyParam),
            (2, 0, NodeInput 3 0), (3, 0, NodeInput 6 0), (6, 0, NodeInput 1 0),
            (8, 0, NodeInput 7 0), (9, 0, NodeInput 7 1), (7, 0, NodeInput 10 0),
            (10, 0, NodeInput 1 0)],
         ctx_state = Running, sampleRate = 44100\<rparr>"
  have p: "ctx (prepare (demo_env 10) played_once) = Some ?c" "masterGain (prepare (demo_env 10) played_once) = Some 1"
    by (simp_all add: prepare_played_once)
  have t: "played_twice = snd (build_layers demo_config (demo_env 10) (prepare (demo_env 10) played_once))"
    by (simp add: played_twice_def play_def)
  have len: "length (nodes ?c) = 11" by simp
  have c: "ctx played_twice = Some (?c\<lparr>nodes := nodes ?c @ played_nodes demo_config (demo_env 10) ?c,
             connections := connections ?c @ played_connections demo_config 1 11\<rparr>)"
    unfolding t build_layers_shape[OF p] len
    by (simp add: demo_config_def)
  have h: "held_nodes played_twice = {11, 17, 18}"
    unfolding t build_layers_shape[OF p] len
    by (auto simp add: held_nodes_def demo_config_def)
  have r: "running_nodes played_twice = [4, 11, 13, 17, 18]"
    unfolding running_nodes_def c
    by (simp add: played_nodes_def demo_config_def demo_env_def running_def)
  from r h show ?thesis by simp
qed

subsection \<open>The isochronic layer\<close>

text \<open>
  The wiring of the isochronic layer, as far as the graph shows it: the carrier is a sine
  oscillator at 150 feeding a gain node whose \<^verbatim>\<open>gain.value\<close> is 0, and the square-wave
  oscillator at \<open>binauralFreq\<close> reaches that gain parameter twice, once directly and
  once through a gain node of value 1. Without the flag no isochronic node is created.
\<close>

lemma isochronic_wiring:
  assumes "wf_engine e" "isochronic cfg"
  shows "\<exists>c osc lfo isoGain lfoGainNode master.
            ctx (snd (play cfg env e)) = Some c \<and>
            masterGain (snd (play cfg env e)) = Some master \<and>
            isochronicOsc (snd (play cfg env e)) = Some osc \<and>
            isochronicLFO (snd (play cfg env e)) = Some lfo \<and>
            nodes c ! osc = Oscillator Sine 150 (Some (currentTime env)) False \<and>
            nodes c ! lfo = Oscillator Square (binauralFreq cfg) (Some (currentTime env)) False \<and>
            nodes c ! isoGain = Gain 0 [] \<and>
            nodes c ! lfoGainNode = Gain 1 [] \<and>
            outputs_of osc c = [(osc, 0, NodeInput isoGain 0)] \<and>
            outputs_of lfo c = [(lfo, 0, NodeInput lfoGainNode 0), (lfo, 0, ParamInput isoGain GainParam)] \<and>
            outputs_of lfoGainNode c = [(lfoGainNode, 0, ParamInput isoGain GainParam)] \<and>
            outputs_of isoGain c = [(isoGain, 0, NodeInput master 0)]"
proof -
  from prepare_wf[OF assms(1), of env] obtain c0 master where
    p: "ctx (prepare env e) = Some c0" "masterGain (prepare env e) = Some master"
    and m: "master < length (nodes c0)"
    and old: "\<forall>(src, out, d) \<in> set (connections c0).
              src < length (nodes c0) \<and> dest_node d < length (nodes c0)"
    by blast
  let ?k = "length (nodes c0)"
  let ?c = "c0\<lparr>nodes := nodes c0 @ played_nodes cfg env c0,
               connections := connections c0 @ played_connections cfg master ?k\<rparr>"
  note shape = play_shape[OF p, of cfg]
  have nth: "nodes ?c ! (?k + 9) = Oscillator Sine 150 (Some (currentTime env)) False"
    "nodes ?c ! (?k + 10) = Oscillator Square (binauralFreq cfg) (Some (currentTime env)) False"
    "nodes ?c ! (?k + 11) = Gain 0 []"
    "nodes ?c ! (?k + 12) = Gain 1 []"
    using assms(2) by (simp_all add: played_nodes_def nth_append)
  have conns: "outputs_of (?k + 9) ?c = [(?k + 9, 0, NodeInput (?k + 11) 0)]"
    "outputs_of (?k + 10) ?c = [(?k + 10, 0, NodeInput (?k + 12) 0), (?k + 10, 0, ParamInput (?k + 11) GainParam)]"
    "outputs_of (?k + 12) ?c = [(?k + 12, 0, ParamInput (?k + 11) GainParam)]"
    "outputs_of (?k + 11) ?c = [(?k + 11, 0, NodeInput master 0)]"
    using m assms(2) by (simp_all add: outputs_of_def old_outputs[OF old] played_connections_def)
  show ?thesis
    unfolding shape using nth conns assms(2) by (simp add: p)
qed

lemma no_isochronic_nodes:
  assumes "wf_engine e" "\<not> isochronic cfg"
  shows "isochronicOsc (snd (play cfg env e)) = None \<and> isochronicLFO (snd (play cfg env e)) = None"
proof -
  from prepare_wf[OF assms(1), of env] obtain c0 master where
    p: "ctx (prepare env e) = Some c0" "masterGain (prepare env e) = Some master"
    by blast
  show ?thesis unfolding play_shape[OF p, of cfg] using assms(2) by simp
qed

subsection \<open>The noise buffer\<close>

lemma one_pole_step: "one_pole w k = (prev_at w k + 0.02 * w k) / 1.02"
  by (cases k) (simp_all add: prev_at_def)

lemma prev_at_Suc: "prev_at w (Suc k) = one_pole w k"
  by (simp add: prev_at_def)

lemma fill_channel_trace:
  "length (fst (fill_channel rnd k n (prev_at (white_of rnd) k))) = n \<and>
   snd (fill_channel rnd k n (prev_at (white_of rnd) k)) = prev_at (white_of rnd) (k + n) \<and>
   (\<forall>i<n. fst (fill_channel rnd k n (prev_at (white_of rnd) k)) ! i =
            3.5 * one_pole (white_of rnd) (k + i))"
proof (induction n arbitrary: k)
  case 0
  then show ?case by simp
next
  case (Suc n)
  let ?w = "white_of rnd"
  have out: "(prev_at ?w k + 0.02 * (rnd k * 2 - 1)) / 1.02 = prev_at ?w (Suc k)"
    by (simp add: prev_at_Suc one_pole_step[of ?w k] white_of_def)
  obtain rest lo where r: "fill_channel rnd (Suc k) n (prev_at ?w (Suc k)) = (rest, lo)"
    by (cases "fill_channel rnd (Suc k) n (prev_at ?w (Suc k))")
  from Suc.IH[of "Suc k"] r have ih: "length rest = n" "lo = prev_at ?w (Suc k + n)"
    "\<forall>i<n. rest ! i = 3.5 * one_pole ?w (Suc k + i)" by simp_all
  have step: "fill_channel rnd k (Suc n) (prev_at ?w k) = (prev_at ?w (Suc k) * 3.5 # rest, lo)"
    by (simp only: fill_channel.simps Let_def out r prod.case)
  have "\<forall>i<Suc n. (prev_at ?w (Suc k) * 3.5 # rest) ! i = 3.5 * one_pole ?w (k + i)"
  proof (intro allI impI)
    fix i assume "i < Suc n"
    then show "(prev_at ?w (Suc k) * 3.5 # rest) ! i = 3.5 * one_pole ?w (k + i)"
      using ih(3) by (cases i) (simp_all add: prev_at_Suc)
  qed
  with ih show ?case unfolding step by simp
qed

lemma fill_channels_trace:
  "length (fill_channels rnd k m n (prev_at (white_of rnd) k)) = m \<and>
   (\<forall>c<m. length (fill_channels rnd k m n (prev_at (white_of rnd) k) ! c) = n \<and>
      (\<forall>i<n. fill_channels rnd k m n (prev_at (white_of rnd) k) ! c ! i =
               3.5 * one_pole (white_of rnd) (k + c * n + i)))"
proof (induction m arbitrary: k)
  case 0
  then show ?case by simp
next
  case (Suc m)
  let ?w = "white_of rnd"
  obtain data lo where d: "fill_channel rnd k n (prev_at ?w k) = (data, lo)"
    by (cases "fill_channel rnd k n (prev_at ?w k)")
  from fill_channel_trace[of rnd k n] d have fc: "length data = n" "lo = prev_at ?w (k + n)"
    "\<forall>i<n. data ! i = 3.5 * one_pole ?w (k + i)" by simp_all
  have step: "fill_channels rnd k (Suc m) n (prev_at ?w k) =
      data # fill_channels rnd (k + n) m n (prev_at ?w (k + n))"
    using d fc(2) by simp
  note ih = Suc.IH[of "k + n"]
  have "\<forall>c<Suc m. length ((data # fill_channels rnd (k + n) m n (prev_at ?w (k + n))) ! c) = n \<and>
      (\<forall>i<n. (data # fill_channels rnd (k + n) m n (prev_at ?w (k + n))) ! c ! i =
               3.5 * one_pole ?w (k + c * n + i))"
  proof (intro allI impI)
    fix c assume c: "c < Suc m"
    show "length ((data # fill_channels rnd (k + n) m n (prev_at ?w (k + n))) ! c) = n \<and>
      (\<forall>i<n. (data # fill_channels rnd (k + n) m n (prev_at ?w (k + n))) ! c ! i =
               3.5 * one_pole ?w (k + c * n + i))"
    proof (cases c)
      case 0
      then show ?thesis using fc by simp
    next
      case (Suc c')
      with c have "c' < m" by simp
      with ih Suc show ?thesis by (simp add: add.assoc)
    qed
  qed
  with ih show ?case unfolding step by simp
qed

lemma noise_buffer_trace:
  "length (noise_buffer rnd n) = 2 \<and>
   (\<forall>c<2. length (noise_buffer rnd n ! c) = n \<and>
      (\<forall>i<n. noise_buffer rnd n ! c ! i = 3.5 * one_pole (white_of rnd) (c * n + i)))"
  using fill_channels_trace[of rnd 0 2 n] by (simp add: noise_buffer_def prev_at_def)

lemma one_pole_negative: "(\<And>j. w j < 0) \<Longrightarrow> one_pole w i < 0"
proof (induction i)
  case 0
  then show ?case by (simp add: divide_neg_pos mult_pos_neg)
next
  case (Suc i)
  have "w (Suc i) < 0" by (rule Suc.prems)
  moreover have "one_pole w i < 0" using Suc by simp
  ultimately have "one_pole w i + 0.02 * w (Suc i) < 0"
    by (simp add: add_neg_neg mult_pos_neg)
  then show ?case by (simp add: divide_neg_pos)
qed

text \<open>
  Claim C6 as stated fails where it says that the channels are generated independently:
  \<^verbatim>\<open>lastOut\<close> is set to 0 once, before the loop over the channels, so the second channel
  starts from the last value of the first. With a random source that always returns 0 and a
  sample rate of 44100, the first sample of channel 1 is not 3.5 times the recurrence run
  from 0 over the white samples of channel 1.
\<close>

theorem second_channel_continues_first:
  "noise_buffer zero_random 220500 ! 1 ! 0 \<noteq>
     3.5 * one_pole (channel_white zero_random 220500 1) 0"
proof -
  let ?w = "white_of zero_random"
  have neg: "one_pole ?w 220499 < 0"
    by (rule one_pole_negative) (simp add: white_of_def zero_random_def)
  have "noise_buffer zero_random 220500 ! 1 ! 0 = 3.5 * one_pole ?w 220500"
    using noise_buffer_trace[of zero_random 220500] by simp
  also have "one_pole ?w 220500 = (one_pole ?w 220499 + 0.02 * ?w 220500) / 1.02"
    using one_pole.simps(2)[of ?w 220499] by simp
  finally have a: "noise_buffer zero_random 220500 ! 1 ! 0 =
      3.5 * ((one_pole ?w 220499 + 0.02 * ?w 220500) / 1.02)" .
  have b: "one_pole (channel_white zero_random 220500 1) 0 = (0 + 0.02 * ?w 220500) / 1.02"
    by (simp add: channel_white_def)
  show ?thesis
    unfolding a b using neg by simp
qed

text \<open>
  Claim C6 (noise recurrence), amended. With a random source in [0,1), every white sample is
  in [-1,1). The buffer has two channels of \<open>n\<close> samples, and sample \<open>i\<close> of channel \<open>c\<close>
  is 3.5 times the value of the recurrence out = (prev + 0.02 white) / 1.02 at position
  \<open>c n + i\<close>, where prev starts at 0 before channel 0 and persists over all samples in the
  order they are generated, channel 0 first; channel 1 continues from the last value of
  channel 0. The buffer is a function of the random source.
\<close>

theorem noise_recurrence:
  assumes "c < 2" "i < n" and "\<forall>k. 0 \<le> rnd k \<and> rnd k < 1"
  shows "length (noise_buffer rnd n) = 2 \<and>
         length (noise_buffer rnd n ! c) = n \<and>
         - 1 \<le> white_of rnd (c * n + i) \<and> white_of rnd (c * n + i) < 1 \<and>
         noise_buffer rnd n ! c ! i = 3.5 * one_pole (white_of rnd) (c * n + i)"
proof -
  from assms(3) have "0 \<le> rnd (c * n + i)" "rnd (c * n + i) < 1" by simp_all
  then have "- 1 \<le> white_of rnd (c * n + i)" "white_of rnd (c * n + i) < 1"
    by (simp_all add: white_of_def)
  with noise_buffer_trace[of rnd n] assms(1,2) show ?thesis by simp
qed

text \<open>
  For a buffer of two samples per channel and the random source that always returns 0.
\<close>

theorem noise_recurrence_witness:
  "length (noise_buffer zero_random 2) = 2 \<and>
   length (noise_buffer zero_random 2 ! 1) = 2 \<and>
   white_of zero_random 2 = - 1 \<and>
   noise_buffer zero_random 2 ! 1 ! 0 = 3.5 * one_pole (white_of zero_random) 2"
proof -
  have h: "(1::nat) < 2" "(0::nat) < 2" "\<forall>k. 0 \<le> zero_random k \<and> zero_random k < 1"
    by (simp_all add: zero_random_def)
  have w: "white_of zero_random 2 = - 1"
    by (simp add: white_of_def zero_random_def)
  from noise_recurrence[OF h] w show ?thesis
    by simp
qed

subsection \<open>setVolume before play, and destroy\<close>

text \<open>
  Claim C10 (setVolume before the first play). While the engine has neither a context nor
  a master gain, \<^verbatim>\<open>setVolume\<close> returns normally and leaves the engine as it is; a later
  \<^verbatim>\<open>play\<close> completes, and the gain of the master node it creates is 0.5 whatever the
  value given to \<^verbatim>\<open>setVolume\<close> was.
\<close>

theorem setVolume_before_first_play:
  assumes "ctx e = None" "masterGain e = None"
  shows "setVolume v now e = (Normal, e) \<and>
         fst (play cfg env (snd (setVolume v now e))) = Normal \<and>
         master_level (snd (play cfg env (snd (setVolume v now e)))) = Some 0.5"
proof -
  have sv: "setVolume v now e = (Normal, e)"
    using assms by (simp add: setVolume_def)
  show ?thesis
    using play_fresh(1,5)[OF assms(1), of cfg env] by (simp add: sv)
qed

text \<open>On a new engine, with volume 0.3.\<close>

theorem setVolume_before_first_play_witness:
  "setVolume 0.3 0 new_engine = (Normal, new_engine) \<and>
   fst (play demo_config (demo_env 0) (snd (setVolume 0.3 0 new_engine))) = Normal \<and>
   master_level (snd (play demo_config (demo_env 0) (snd (setVolume 0.3 0 new_engine)))) = Some 0.5"
proof -
  have h: "ctx new_engine = None" "masterGain new_engine = None"
    by (simp_all add: new_engine_def)
  show ?thesis
    by (rule setVolume_before_first_play[OF h])
qed

text \<open>
  Claim C8 as stated fails: the engine keeps no record of having been destroyed. After
  \<^verbatim>\<open>play\<close> and \<^verbatim>\<open>destroy\<close>, \<^verbatim>\<open>stop\<close> returns and changes nothing, and \<^verbatim>\<open>play\<close>
  completes normally on a context it creates.
\<close>

theorem play_after_destroy_succeeds:
  "isPlaying played_once \<and>
   ctx (destroy played_once) = None \<and>
   stop (destroy played_once) = destroy played_once \<and>
   fst (play demo_config (demo_env 20) (destroy played_once)) = Normal \<and>
   ctx (snd (play demo_config (demo_env 20) (destroy played_once))) \<noteq> None"
  using play_fresh(1,4)[OF destroy_props(1), of demo_config "demo_env 20" played_once]
  by (auto simp: destroy_props played_once_eq)

text \<open>
  The whole result of \<^verbatim>\<open>play\<close> on an engine without a context.
\<close>

lemma play_on_fresh:
  assumes "ctx e = None"
  shows "play cfg env e =
     (Normal,
      \<lparr>ctx = Some
         \<lparr>nodes =
            [Destination, Gain 0.5 [],
             BufferSource (noise_buffer (random env) (hw_sampleRate env * 5)) True
               (Some (currentTime env)) False,
             BiquadFilter Lowpass 400 1,
             Oscillator Sine 0.1 (Some (currentTime env)) False,
             Gain 200 [], Gain 0.15 [],
             ChannelMerger 2,
             Oscillator Sine (baseFreq cfg) (Some (currentTime env)) False,
             Oscillator Sine (baseFreq cfg + binauralFreq cfg) (Some (currentTime env)) False,
             Gain 0.1 []] @
            (if isochronic cfg
             then [Oscillator Sine 150 (Some (currentTime env)) False,
                   Oscillator Square (binauralFreq cfg) (Some (currentTime env)) False,
                   Gain 0 [], Gain 1 []]
             else []),
          connections =
            [(1, 0, NodeInput 0 0),
             (4, 0, NodeInput 5 0), (5, 0, ParamInput 3 FrequencyParam),
             (2, 0, NodeInput 3 0), (3, 0, NodeInput 6 0), (6, 0, NodeInput 1 0),
             (8, 0, NodeInput 7 0), (9, 0, NodeInput 7 1), (7, 0, NodeInput 10 0),
             (10, 0, NodeInput 1 0)] @
            (if isochronic cfg
             then [(12, 0, NodeInput 14 0), (14, 0, ParamInput 13 GainParam),
                   (11, 0, NodeInput 13 0), (13, 0, NodeInput 1 0),
                   (12, 0, ParamInput 13 GainParam)]
             else []),
          ctx_state = Running, sampleRate = hw_sampleRate env\<rparr>,
       masterGain = Some 1,
       binauralLeft = Some 8, binauralRight = Some 9,
       isochronicOsc = (if isochronic cfg then Some 11 else None),
       isochronicLFO = (if isochronic cfg then Some 12 else None),
       ambientSource = Some 2, isPlaying = True\<rparr>)"
proof -
  note p = prepare_fresh[OF assms, of env]
  let ?c0 = "\<lparr>nodes = [Destination, Gain 0.5 []], connections = [(1, 0, NodeInput 0 0)],
                 ctx_state = Running, sampleRate = hw_sampleRate env\<rparr>"
  have len: "length (nodes ?c0) = 2" by simp
  show ?thesis
    unfolding play_shape[OF p(2) p(1)] len
    by (cases "isochronic cfg")
       (auto intro!: lyria_engine.equality
             simp: prepare_fresh_engine[OF assms] played_nodes_def played_connections_def)
qed

text \<open>
  Claim C8 (after destroy), amended. \<^verbatim>\<open>destroy\<close> performs \<^verbatim>\<open>stop\<close> and drops the
  context. Afterwards \<^verbatim>\<open>stop\<close> returns without any effect, and \<^verbatim>\<open>play\<close> completes
  normally, with the same result as on a new engine: it creates a new context with a new
  master gain of 0.5 and starts the layers on it. The context then holds the nodes and
  connections of the ambient pad, of the binaural pair and, with the flag, of the
  isochronic layer; the engine holds the ambient source and the oscillators, and the
  running sources are the ambient source, the filter oscillator and the binaural pair
  (nodes 2, 4, 8 and 9), with the isochronic carrier and its modulator (nodes 11 and 12)
  when the flag is set.
\<close>

theorem destroy_then_stop_and_play:
  "destroy e = (stop e)\<lparr>ctx := None\<rparr> \<and>
   ctx (destroy e) = None \<and>
   stop (destroy e) = destroy e \<and>
   play cfg env (destroy e) = play cfg env new_engine \<and>
   fst (play cfg env (destroy e)) = Normal \<and>
   ctx (snd (play cfg env (destroy e))) = Some
     \<lparr>nodes =
        [Destination, Gain 0.5 [],
         BufferSource (noise_buffer (random env) (hw_sampleRate env * 5)) True
           (Some (currentTime env)) False,
         BiquadFilter Lowpass 400 1,
         Oscillator Sine 0.1 (Some (currentTime env)) False,
         Gain 200 [], Gain 0.15 [],
         ChannelMerger 2,
         Oscillator Sine (baseFreq cfg) (Some (currentTime env)) False,
         Oscillator Sine (baseFreq cfg + binauralFreq cfg) (Some (currentTime env)) False,
         Gain 0.1 []] @
        (if isochronic cfg
         then [Oscillator Sine 150 (Some (currentTime env)) False,
               Oscillator Square (binauralFreq cfg) (Some (currentTime env)) False,
               Gain 0 [], Gain 1 []]
         else []),
      connections =
        [(1, 0, NodeInput 0 0),
         (4, 0, NodeInput 5 0), (5, 0, ParamInput 3 FrequencyParam),
         (2, 0, NodeInput 3 0), (3, 0, NodeInput 6 0), (6, 0, NodeInput 1 0),
         (8, 0, NodeInput 7 0), (9, 0, NodeInput 7 1), (7, 0, NodeInput 10 0),
         (10, 0, NodeInput 1 0)] @
        (if isochronic cfg
         then [(12, 0, NodeInput 14 0), (14, 0, ParamInput 13 GainParam),
               (11, 0, NodeInput 13 0), (13, 0, NodeInput 1 0),
               (12, 0, ParamInput 13 GainParam)]
         else []),
      ctx_state = Running, sampleRate = hw_sampleRate env\<rparr> \<and>
   masterGain (snd (play cfg env (destroy e))) = Some 1 \<and>
   master_level (snd (play cfg env (destroy e))) = Some 0.5 \<and>
   isPlaying (snd (play cfg env (destroy e))) \<and>
   ambientSource (snd (play cfg env (destroy e))) = Some 2 \<and>
   binauralLeft (snd (play cfg env (destroy e))) = Some 8 \<and>
   binauralRight (snd (play cfg env (destroy e))) = Some 9 \<and>
   isochronicOsc (snd (play cfg env (destroy e))) = (if isochronic cfg then Some 11 else None) \<and>
   isochronicLFO (snd (play cfg env (destroy e))) = (if isochronic cfg then Some 12 else None) \<and>
   running_nodes (snd (play cfg env (destroy e))) =
     (if isochronic cfg then [2, 4, 8, 9, 11, 12] else [2, 4, 8, 9])"
proof -
  have d: "ctx (destroy e) = None" by (rule destroy_props(1))
  have n: "ctx new_engine = None" by (simp add: new_engine_def)
  have run: "running_nodes (snd (play cfg env (destroy e))) =
     (if isochronic cfg then [2, 4, 8, 9, 11, 12] else [2, 4, 8, 9])"
    unfolding play_on_fresh[OF d] by (simp add: running_nodes_def running_def)
  have lvl: "master_level (snd (play cfg env (destroy e))) = Some 0.5"
    by (rule play_fresh(5)[OF d])
  have played: "play cfg env (destroy e) = play cfg env new_engine \<and>
   fst (play cfg env (destroy e)) = Normal \<and>
   ctx (snd (play cfg env (destroy e))) = Some
     \<lparr>nodes =
        [Destination, Gain 0.5 [],
         BufferSource (noise_buffer (random env) (hw_sampleRate env * 5)) True
           (Some (currentTime env)) False,
         BiquadFilter Lowpass 400 1,
         Oscillator Sine 0.1 (Some (currentTime env)) False,
         Gain 200 [], Gain 0.15 [],
         ChannelMerger 2,
         Oscillator Sine (baseFreq cfg) (Some (currentTime env)) False,
         Oscillator Sine (baseFreq cfg + binauralFreq cfg) (Some (currentTime env)) False,
         Gain 0.1 []] @
        (if isochronic cfg
         then [Oscillator Sine 150 (Some (currentTime env)) False,
               Oscillator Square (binauralFreq cfg) (Some (currentTime env)) False,
               Gain 0 [], Gain 1 []]
         else []),
      connections =
        [(1, 0, NodeInput 0 0),
         (4, 0, NodeInput 5 0), (5, 0, ParamInput 3 FrequencyParam),
         (2, 0, NodeInput 3 0), (3, 0, NodeInput 6 0), (6, 0, NodeInput 1 0),
         (8, 0, NodeInput 7 0), (9, 0, NodeInput 7 1), (7, 0, NodeInput 10 0),
         (10, 0, NodeInput 1 0)] @
        (if isochronic cfg
         then [(12, 0, NodeInput 14 0), (14, 0, ParamInput 13 GainParam),
               (11, 0, NodeInput 13 0), (13, 0, NodeInput 1 0),
               (12, 0, ParamInput 13 GainParam)]
         else []),
      ctx_state = Running, sampleRate = hw_sampleRate env\<rparr> \<and>
   masterGain (snd (play cfg env (destroy e))) = Some 1 \<and>
   master_level (snd (play cfg env (destroy e))) = Some 0.5 \<and>
   isPlaying (snd (play cfg env (destroy e))) \<and>
   ambientSource (snd (play cfg env (destroy e))) = Some 2 \<and>
   binauralLeft (snd (play cfg env (destroy e))) = Some 8 \<and>
   binauralRight (snd (play cfg env (destroy e))) = Some 9 \<and>
   isochronicOsc (snd (play cfg env (destroy e))) = (if isochronic cfg then Some 11 else None) \<and>
   isochronicLFO (snd (play cfg env (destroy e))) = (if isochronic cfg then Some 12 else None) \<and>
   running_nodes (snd (play cfg env (destroy e))) =
     (if isochronic cfg then [2, 4, 8, 9, 11, 12] else [2, 4, 8, 9])"
    using run lvl by (simp add: play_on_fresh[OF d] play_on_fresh[OF n])
  from destroy_eq[of e] destroy_props[of e] played show ?thesis
    by (intro conjI) blast+
qed

end
